theory Spec2Isabelle
  imports Complex_Main "HOL-Library.Product_Lexorder" "HOL-Library.Multiset"
begin

section \<open>Numbers, exceptions and indexing\<close>

text \<open>
  The script computes with binary floating-point numbers. They are modelled by exact
  rationals extended with the three non-finite values, so arithmetic is exact: the
  rounding error of a single operation and the sign of a zero are not represented.
  The values that reach the program from the data provider (closing prices, volumes)
  are taken to be finite.
\<close>

datatype fl = Fin rat | PInf | NInf | NaN

datatype exn = ZeroDivisionError | IndexError | ValueError | ProviderError string

fun fl_neg :: "fl \<Rightarrow> fl" where
  "fl_neg (Fin x) = Fin (- x)"
| "fl_neg PInf = NInf"
| "fl_neg NInf = PInf"
| "fl_neg NaN = NaN"

fun fl_add :: "fl \<Rightarrow> fl \<Rightarrow> fl" where
  "fl_add (Fin x) (Fin y) = Fin (x + y)"
| "fl_add NaN _ = NaN"
| "fl_add _ NaN = NaN"
| "fl_add PInf NInf = NaN"
| "fl_add NInf PInf = NaN"
| "fl_add PInf _ = PInf"
| "fl_add _ PInf = PInf"
| "fl_add NInf _ = NInf"
| "fl_add _ NInf = NInf"

definition fl_sub :: "fl \<Rightarrow> fl \<Rightarrow> fl" where
  "fl_sub a b = fl_add a (fl_neg b)"

text \<open>The sign of a value: \<open>None\<close> for NaN, otherwise \<open>-1\<close>, \<open>0\<close> or \<open>1\<close>.\<close>

fun fl_sign :: "fl \<Rightarrow> int option" where
  "fl_sign (Fin x) = Some (if x < 0 then - 1 else if x = 0 then 0 else 1)"
| "fl_sign PInf = Some 1"
| "fl_sign NInf = Some (- 1)"
| "fl_sign NaN = None"

definition fl_inf :: "int \<Rightarrow> fl" where
  "fl_inf s = (if s < 0 then NInf else if s = 0 then NaN else PInf)"

fun fl_mul :: "fl \<Rightarrow> fl \<Rightarrow> fl" where
  "fl_mul (Fin x) (Fin y) = Fin (x * y)"
| "fl_mul a b =
     (case (fl_sign a, fl_sign b) of
        (Some s, Some t) \<Rightarrow> fl_inf (s * t)
      | _ \<Rightarrow> NaN)"

text \<open>
  Division of two numpy scalars (\<open>hist['Close'].iloc[0]\<close> is one, and so is the
  difference on line 39): a zero divisor gives an infinity or NaN, with a warning and no
  exception.
\<close>

fun np_div :: "fl \<Rightarrow> fl \<Rightarrow> fl" where
  "np_div (Fin x) (Fin y) = (if y = 0 then fl_inf (if x < 0 then - 1 else if x = 0 then 0 else 1) else Fin (x / y))"
| "np_div NaN _ = NaN"
| "np_div _ NaN = NaN"
| "np_div (Fin x) _ = Fin 0"
| "np_div a (Fin y) = (case fl_sign a of Some s \<Rightarrow> fl_inf (if y < 0 then - s else s) | None \<Rightarrow> NaN)"
| "np_div _ _ = NaN"

text \<open>
  Division of two Python floats (\<open>current_price\<close> and \<open>current_ma\<close> are made by
  \<open>float(...)\<close>): a zero divisor raises.
\<close>

definition py_div :: "fl \<Rightarrow> fl \<Rightarrow> exn + fl" where
  "py_div a b = (if b = Fin 0 then Inl ZeroDivisionError else Inr (np_div a b))"

fun fl_less :: "fl \<Rightarrow> fl \<Rightarrow> bool" where
  "fl_less NaN _ = False"
| "fl_less _ NaN = False"
| "fl_less (Fin x) (Fin y) = (x < y)"
| "fl_less _ NInf = False"
| "fl_less NInf _ = True"
| "fl_less PInf _ = False"
| "fl_less _ PInf = True"

fun fl_ge :: "fl \<Rightarrow> fl \<Rightarrow> bool" where
  "fl_ge NaN _ = False"
| "fl_ge _ NaN = False"
| "fl_ge a b = (\<not> fl_less a b)"

text \<open>
  \<open>round(x, 2)\<close>: to the nearest multiple of 0.01. When the exact value lies half-way
  between two of them the even one is taken here; the script rounds the binary number
  nearest to that value, which lies a little to one side, so at such a tie it may store
  the other neighbour (it stores 100.03 for an average of 100.025). No property below
  depends on the side taken at a tie.
\<close>

definition round_half_even :: "rat \<Rightarrow> int" where
  "round_half_even x =
     (let f = \<lfloor>x\<rfloor>; d = x - of_int f
      in if d < 1 / 2 then f else if 1 / 2 < d then f + 1 else if even f then f else f + 1)"

definition round_to :: "nat \<Rightarrow> rat \<Rightarrow> rat" where
  "round_to k x = of_int (round_half_even (x * 10 ^ k)) / 10 ^ k"

fun py_round :: "fl \<Rightarrow> nat \<Rightarrow> fl" where
  "py_round (Fin x) k = Fin (round_to k x)"
| "py_round a k = a"

text \<open>\<open>xs.iloc[i]\<close>: a negative index counts from the end, out of range raises.\<close>

definition iloc :: "'a list \<Rightarrow> int \<Rightarrow> exn + 'a" where
  "iloc xs i =
     (if 0 \<le> i \<and> i < int (length xs) then Inr (xs ! nat i)
      else if i < 0 \<and> - int (length xs) \<le> i then Inr (xs ! nat (int (length xs) + i))
      else Inl IndexError)"

definition bind :: "exn + 'a \<Rightarrow> ('a \<Rightarrow> exn + 'b) \<Rightarrow> exn + 'b" where
  "bind m f = (case m of Inl e \<Rightarrow> Inl e | Inr x \<Rightarrow> f x)"

section \<open>The ticker list\<close>

definition get_nifty_tickers :: "string list" where
  "get_nifty_tickers =
     [''RELIANCE.NS'', ''TCS.NS'', ''HDFCBANK.NS'', ''INFY.NS'', ''ICICIBANK.NS'',
      ''HINDUNILVR.NS'', ''ITC.NS'', ''SBIN.NS'', ''BHARTIARTL.NS'', ''KOTAKBANK.NS'',
      ''LT.NS'', ''AXISBANK.NS'', ''ASIANPAINT.NS'', ''MARUTI.NS'', ''WIPRO.NS'',
      ''BAJFINANCE.NS'', ''TITAN.NS'', ''ULTRACEMCO.NS'', ''SUNPHARMA.NS'', ''TATAMOTORS.NS'',
      ''NTPC.NS'', ''POWERGRID.NS'', ''M&M.NS'', ''HCLTECH.NS'', ''ADANIENT.NS'',
      ''BAJAJFINSV.NS'', ''ONGC.NS'', ''COALINDIA.NS'', ''TATASTEEL.NS'', ''HINDALCO.NS'']"

section \<open>The data provider\<close>

text \<open>
  One row of \<open>stock.history(...)\<close>: the two columns the script reads.
\<close>

record point =
  Close :: rat
  Volume :: int

text \<open>
  What \<open>yf.Ticker(ticker)\<close> stands for: \<open>history\<close> answers a request for the days
  between two instants (in days) with the rows in chronological order or raises, and
  \<open>info\<close> is a dictionary or raises when it is fetched.
\<close>

record stock =
  history :: "rat \<Rightarrow> rat \<Rightarrow> exn + point list"
  info :: "exn + (string \<rightharpoonup> string)"

type_synonym provider = "string \<Rightarrow> stock"

section \<open>The indicator calculator\<close>

record row =
  Symbol :: string
  Name :: string
  Current_Price :: fl
  MA_200 :: fl
  Below_MA :: bool
  Distance_From_MA :: fl
  Row_Volume :: int
  Price_Change :: fl

text \<open>\<open>ticker.replace('.NS', '')\<close>: every occurrence, left to right.\<close>

fun replace_NS :: "string \<Rightarrow> string" where
  "replace_NS (a # b # c # rest) =
     (if [a, b, c] = ''.NS'' then replace_NS rest else a # replace_NS (b # c # rest))"
| "replace_NS s = s"

text \<open>
  \<open>series.rolling(window=w).mean()\<close>: position \<open>i\<close> holds the mean of the \<open>w\<close>
  values ending at \<open>i\<close>, and NaN where fewer than \<open>w\<close> values are there (or the
  window is empty).
\<close>

definition rolling_mean :: "nat \<Rightarrow> rat list \<Rightarrow> fl list" where
  "rolling_mean w xs =
     map (\<lambda>i. if w = 0 \<or> i + 1 < w then NaN
              else Fin (sum_list (take w (drop (i + 1 - w) xs)) / of_nat w))
         [0..<length xs]"

text \<open>
  The body of the \<open>try\<close> for one ticker (lines 28 to 50): \<open>Inl\<close> is the exception
  that reaches the handler, \<open>Inr None\<close> is the silent skip of a short history and
  \<open>Inr (Some r)\<close> the row that is appended.
\<close>

definition process_ticker :: "provider \<Rightarrow> rat \<Rightarrow> nat \<Rightarrow> string \<Rightarrow> exn + row option" where
  "process_ticker yf end_date ma_period ticker =
     (let stock = yf ticker;
          start_date = end_date - of_nat (ma_period + 100)
      in bind (history stock start_date end_date) (\<lambda>hist.
         if length hist > ma_period then
           (let ma_200 = rolling_mean ma_period (map Close hist)
            in bind (iloc (map Close hist) (- 1)) (\<lambda>last_close.
               bind (iloc ma_200 (- 1)) (\<lambda>current_ma.
               (let current_price = Fin last_close;
                    below_ma = fl_less current_price current_ma
                in bind (py_div (fl_sub current_price current_ma) current_ma) (\<lambda>q.
                   (let distance_from_ma = fl_mul q (Fin 100)
                    in bind (iloc (map Volume hist) (- 1)) (\<lambda>volume.
                       bind (iloc (map Close hist) 0) (\<lambda>first_close.
                       (let price_change =
                              fl_mul (np_div (fl_sub current_price (Fin first_close)) (Fin first_close)) (Fin 100)
                        in bind (info stock) (\<lambda>d.
                           Inr (Some \<lparr>Symbol = replace_NS ticker,
                                      Name = (case d ''longName'' of Some n \<Rightarrow> n | None \<Rightarrow> replace_NS ticker),
                                      Current_Price = py_round current_price 2,
                                      MA_200 = py_round current_ma 2,
                                      Below_MA = below_ma,
                                      Distance_From_MA = py_round distance_from_ma 2,
                                      Row_Volume = volume,
                                      Price_Change = py_round price_change 2\<rparr>)))))))))))
         else Inr None))"

section \<open>What the dashboard shows\<close>

text \<open>
  A figure as \<open>create_charts\<close> builds it: the title, the bar colour, one bar per row
  (symbol and height) and the text drawn over each bar.
\<close>

record chart =
  chart_title :: string
  bar_color :: string
  bars :: "(string \<times> fl) list"
  bar_texts :: "string list"

text \<open>
  The calls into the dashboard library, in the order they are made. The text of an
  exception (\<open>str(e)\<close>) is kept as the exception itself.
\<close>

datatype event =
    Title string
  | Write string
  | Write_error string exn
  | Selectbox string
  | Spinner string
  | Progress rat
  | Progress_empty
  | Error string
  | Metric string nat
  | Subheader string
  | Tabs "string list"
  | Pyplot chart
  | Dataframe "row list"

section \<open>The per-symbol loop\<close>

fun ticker_loop ::
  "provider \<Rightarrow> rat \<Rightarrow> nat \<Rightarrow> nat \<Rightarrow> (nat \<times> string) list \<Rightarrow> row list \<times> event list
     \<Rightarrow> row list \<times> event list" where
  "ticker_loop yf end_date ma_period total_tickers [] st = st"
| "ticker_loop yf end_date ma_period total_tickers ((idx, ticker) # rest) (results_list, ui) =
     (let (results_list', ui') =
            (case process_ticker yf end_date ma_period ticker of
               Inl e \<Rightarrow> (results_list, ui @ [Write_error ticker e])
             | Inr None \<Rightarrow> (results_list, ui)
             | Inr (Some r) \<Rightarrow> (results_list @ [r], ui))
      in ticker_loop yf end_date ma_period total_tickers rest
           (results_list', ui' @ [Progress (of_nat (idx + 1) / of_nat total_tickers)]))"

text \<open>
  \<open>now\<close> is the value of \<open>datetime.now()\<close>, \<open>ui\<close> what the dashboard has shown so
  far; the result is the data frame (its rows in order) and the dashboard afterwards.
\<close>

definition get_stocks_below_ma ::
  "provider \<Rightarrow> rat \<Rightarrow> string list \<Rightarrow> nat \<Rightarrow> event list \<Rightarrow> row list \<times> event list" where
  "get_stocks_below_ma yf now tickers ma_period ui =
     (let end_date = now;
          total_tickers = length tickers;
          (results_list, ui') =
             ticker_loop yf end_date ma_period total_tickers (enumerate 0 tickers)
               ([], ui @ [Progress 0])
      in (results_list, ui' @ [Progress_empty]))"

section \<open>The chart grouper\<close>

text \<open>
  The position of a value in an ascending \<open>sort_values\<close>: NaN comes last. The order
  pandas gives to rows with equal keys is not fixed by its default algorithm; here they
  keep their order.
\<close>

fun fl_rank :: "fl \<Rightarrow> nat \<times> rat" where
  "fl_rank NInf = (0, 0)"
| "fl_rank (Fin x) = (1, x)"
| "fl_rank PInf = (2, 0)"
| "fl_rank NaN = (3, 0)"

definition sort_values :: "(row \<Rightarrow> fl) \<Rightarrow> row list \<Rightarrow> row list" where
  "sort_values col df = sort_key (\<lambda>r. fl_rank (col r)) df"

definition above_df :: "row list \<Rightarrow> row list" where
  "above_df analysis_df =
     sort_values Distance_From_MA (filter (\<lambda>r. fl_ge (Distance_From_MA r) (Fin 0)) analysis_df)"

definition below_df :: "row list \<Rightarrow> row list" where
  "below_df analysis_df =
     sort_values Distance_From_MA (filter (\<lambda>r. fl_less (Distance_From_MA r) (Fin 0)) analysis_df)"

text \<open>\<open>range(i, n, k)\<close> for a positive step, and \<open>range\<close> itself, which refuses step 0.\<close>

function range_from :: "nat \<Rightarrow> nat \<Rightarrow> nat \<Rightarrow> nat list" where
  "range_from i n k = (if k = 0 \<or> n \<le> i then [] else i # range_from (i + k) n k)"
  by pat_completeness auto
termination
  by (relation "measure (\<lambda>(i, n, k). n - i)") auto

declare range_from.simps [simp del]

definition py_range :: "nat \<Rightarrow> nat \<Rightarrow> nat \<Rightarrow> exn + nat list" where
  "py_range i n k = (if k = 0 then Inl ValueError else Inr (range_from i n k))"

text \<open>
  Decimal digits of a natural number, and the format \<open>{x:.1f}\<close>. As for
  \<open>round\<close>, a value exactly half-way between two tenths goes to the even one here and
  to the side of its binary representation in the script, and a negative zero, which the
  script prints as \<open>-0.0\<close>, is the plain zero here.
\<close>

function show_nat :: "nat \<Rightarrow> string" where
  "show_nat n =
     (if n < 10 then [''0123456789'' ! n]
      else show_nat (n div 10) @ [''0123456789'' ! (n mod 10)])"
  by pat_completeness auto
termination
  by (relation "measure id") auto

declare show_nat.simps [simp del]

fun format_1f :: "fl \<Rightarrow> string" where
  "format_1f (Fin x) =
     (let n = nat (round_half_even (\<bar>x\<bar> * 10))
      in (if x < 0 then ''-'' else []) @ show_nat (n div 10) @ ''.'' @ show_nat (n mod 10))"
| "format_1f PInf = ''inf''"
| "format_1f NInf = ''-inf''"
| "format_1f NaN = ''nan''"

text \<open>
  The body of each of the two iterations over the charts (lines 66 to 81 and 85 to 100); \<open>is_above\<close> tells which
  one. \<open>df.iloc[i:i + k]\<close> is \<open>take k (drop i df)\<close>: a slice stops at the end.
\<close>

definition make_chart :: "bool \<Rightarrow> row list \<Rightarrow> nat \<Rightarrow> nat \<Rightarrow> chart" where
  "make_chart is_above df stocks_per_chart i =
     (let chunk = take stocks_per_chart (drop i df)
      in \<lparr>chart_title =
             (if is_above then ''Indian Stocks Above 200-day MA (Group ''
              else ''Indian Stocks Below 200-day MA (Group '')
             @ show_nat (i div stocks_per_chart + 1) @ '')'',
           bar_color = (if is_above then ''#2ecc71'' else ''#e74c3c''),
           bars = map (\<lambda>r. (Symbol r, Distance_From_MA r)) chunk,
           bar_texts =
             map (\<lambda>r. (if is_above then ''+'' else []) @ format_1f (Distance_From_MA r) @ ''%'') chunk\<rparr>)"

definition create_charts :: "row list \<Rightarrow> nat \<Rightarrow> exn + (chart list \<times> chart list)" where
  "create_charts analysis_df stocks_per_chart =
     bind (py_range 0 (length (above_df analysis_df)) stocks_per_chart) (\<lambda>starts.
     (let above_charts = map (make_chart True (above_df analysis_df) stocks_per_chart) starts
      in bind (py_range 0 (length (below_df analysis_df)) stocks_per_chart) (\<lambda>starts'.
         (let below_charts = map (make_chart False (below_df analysis_df) stocks_per_chart) starts'
          in Inr (above_charts, below_charts)))))"

section \<open>The page\<close>

datatype filter_option = All | Above_MA | Below_MA_only

datatype sort_column = By_Distance | By_Current_Price | By_Volume | By_Price_Change

fun column :: "sort_column \<Rightarrow> row \<Rightarrow> fl" where
  "column By_Distance r = Distance_From_MA r"
| "column By_Current_Price r = Current_Price r"
| "column By_Volume r = Fin (of_int (Row_Volume r))"
| "column By_Price_Change r = Price_Change r"

text \<open>\<open>sort_values(col, ascending=False)\<close>: largest first, NaN still last.\<close>

definition sort_values_desc :: "(row \<Rightarrow> fl) \<Rightarrow> row list \<Rightarrow> row list" where
  "sort_values_desc col df =
     rev (sort_values col (filter (\<lambda>r. col r \<noteq> NaN) df)) @ filter (\<lambda>r. col r = NaN) df"

definition group_tabs :: "chart list \<Rightarrow> string list" where
  "group_tabs charts = map (\<lambda>i. ''Group '' @ show_nat (i + 1)) [0..<length charts]"

definition show_charts :: "string \<Rightarrow> chart list \<Rightarrow> event list" where
  "show_charts heading charts =
     (if charts = [] then []
      else [Subheader heading, Tabs (group_tabs charts)] @ map Pyplot charts)"

text \<open>
  \<open>main\<close>, with what the user picks in the four selectors as arguments. The result
  is what the page shows, or the exception that leaves \<open>main\<close>.
\<close>

definition main ::
  "provider \<Rightarrow> rat \<Rightarrow> nat \<Rightarrow> nat \<Rightarrow> filter_option \<Rightarrow> sort_column \<Rightarrow> exn + event list" where
  "main yf now stocks_per_page ma_period filter_opt sort_by =
     (let ui = [Title ''Indian Stock Market Health Analysis'',
                Write ''Analysis of NSE stocks relative to their 200-day Moving Average'',
                Selectbox ''Stocks per chart'',
                Selectbox ''Moving Average Period (days)'',
                Spinner ''Fetching data and calculating moving averages...''];
          tickers = get_nifty_tickers;
          (df, ui) = get_stocks_below_ma yf now tickers ma_period ui
      in if df = [] then
           Inr (ui @ [Error ''No data available. Please check your internet connection or try again later.''])
         else
           (let ui = ui @ [Metric ''Total Stocks'' (length df),
                           Metric ''Stocks Above MA''
                             (length (filter (\<lambda>r. fl_ge (Distance_From_MA r) (Fin 0)) df)),
                           Metric ''Stocks Below MA''
                             (length (filter (\<lambda>r. fl_less (Distance_From_MA r) (Fin 0)) df))]
            in bind (create_charts df stocks_per_page) (\<lambda>(above_charts, below_charts).
               (let ui = ui @ show_charts ''Stocks Trading Above MA'' above_charts
                            @ show_charts ''Stocks Trading Below MA'' below_charts
                            @ [Subheader ''Detailed Stock Data'',
                               Selectbox ''Filter by'',
                               Selectbox ''Sort by''];
                    filtered_df =
                      (case filter_opt of
                         All \<Rightarrow> df
                       | Above_MA \<Rightarrow> filter (\<lambda>r. fl_ge (Distance_From_MA r) (Fin 0)) df
                       | Below_MA_only \<Rightarrow> filter (\<lambda>r. fl_less (Distance_From_MA r) (Fin 0)) df)
                in Inr (ui @ [Dataframe (sort_values_desc (column sort_by) filtered_df)])))))"

section \<open>Notions used to state the properties\<close>

text \<open>
  The arithmetic mean of the last \<open>p\<close> values of a sequence, as the specification
  words the moving average.
\<close>

definition mean_of_last :: "nat \<Rightarrow> rat list \<Rightarrow> rat" where
  "mean_of_last p xs = sum_list (drop (length xs - p) xs) / of_nat p"

text \<open>What one pass of the loop body adds to the frame and to the page.\<close>

fun rows_of :: "exn + row option \<Rightarrow> row list" where
  "rows_of (Inr (Some r)) = [r]"
| "rows_of _ = []"

fun errors_of :: "string \<Rightarrow> exn + row option \<Rightarrow> event list" where
  "errors_of t (Inl e) = [Write_error t e]"
| "errors_of t _ = []"

text \<open>
  Concrete providers for the examples: one that answers every request with rows of the
  given closing prices and has no display name, and one whose requests all fail.
\<close>

definition stock_of_closes :: "rat list \<Rightarrow> stock" where
  "stock_of_closes cs =
     \<lparr>history = (\<lambda>start_date end_date. Inr (map (\<lambda>c. \<lparr>Close = c, Volume = 1000\<rparr>) cs)),
      info = Inr Map.empty\<rparr>"

definition failing_stock :: stock where
  "failing_stock =
     \<lparr>history = (\<lambda>start_date end_date. Inl (ProviderError ''connection reset'')),
      info = Inl (ProviderError ''connection reset'')\<rparr>"

definition zero_provider :: provider where
  "zero_provider ticker = stock_of_closes (replicate 51 0)"

definition rising_provider :: provider where
  "rising_provider ticker = stock_of_closes [10, 20, 30]"

definition zero_first_provider :: provider where
  "zero_first_provider ticker = stock_of_closes (0 # replicate 50 10)"

definition near_provider :: provider where
  "near_provider ticker =
     stock_of_closes (1024 # replicate 25 (32769 / 32) @ replicate 25 (32767 / 32))"

definition scenario_provider :: provider where
  "scenario_provider ticker =
     stock_of_closes (replicate 10 50 @ replicate 100 90 @ replicate 100 100)"

text \<open>
  \<open>v\<close> is \<open>x\<close> rounded to two decimal places: a whole number of hundredths, no
  further than half a hundredth from \<open>x\<close>.
\<close>

definition rounded2 :: "rat \<Rightarrow> rat \<Rightarrow> bool" where
  "rounded2 x v \<longleftrightarrow> v * 100 = of_int \<lfloor>v * 100\<rfloor> \<and> \<bar>v - x\<bar> \<le> 1 / 200"

text \<open>The rows the example providers lead to.\<close>

definition rising_row :: row where
  "rising_row =
     \<lparr>Symbol = ''TCS'', Name = ''TCS'', Current_Price = Fin 30, MA_200 = Fin 25,
      Below_MA = False, Distance_From_MA = Fin 20, Row_Volume = 1000, Price_Change = Fin 200\<rparr>"

definition near_row :: row where
  "near_row =
     \<lparr>Symbol = ''TCS'', Name = ''TCS'', Current_Price = Fin (102397 / 100), MA_200 = Fin 1024,
      Below_MA = True, Distance_From_MA = Fin 0, Row_Volume = 1000, Price_Change = Fin 0\<rparr>"

definition zero_first_row :: row where
  "zero_first_row =
     \<lparr>Symbol = ''TCS'', Name = ''TCS'', Current_Price = Fin 10, MA_200 = Fin 10,
      Below_MA = False, Distance_From_MA = Fin 0, Row_Volume = 1000, Price_Change = PInf\<rparr>"

definition scenario_row :: row where
  "scenario_row =
     \<lparr>Symbol = ''TCS'', Name = ''TCS'', Current_Price = Fin 100, MA_200 = Fin 95,
      Below_MA = False, Distance_From_MA = Fin (526 / 100), Row_Volume = 1000,
      Price_Change = Fin 100\<rparr>"

definition failing_provider :: provider where
  "failing_provider ticker = failing_stock"

text \<open>
  A provider that fails for one ticker and answers the others with three closing prices.
\<close>

definition one_failing_provider :: provider where
  "one_failing_provider ticker =
     (if ticker = ''TCS.NS'' then failing_stock else stock_of_closes [10, 20, 30])"

text \<open>The calls that put summary metrics, charts or the table on the page.\<close>

fun is_rendering :: "event \<Rightarrow> bool" where
  "is_rendering (Metric _ _) = True"
| "is_rendering (Subheader _) = True"
| "is_rendering (Tabs _) = True"
| "is_rendering (Pyplot _) = True"
| "is_rendering (Dataframe _) = True"
| "is_rendering _ = False"

text \<open>
  A stored value is the finite number \<open>x\<close> rounded to two decimal places. Which of the
  two neighbours is stored when \<open>x\<close> lies exactly half-way between them is left open.
\<close>

fun stored_rounded2 :: "rat \<Rightarrow> fl \<Rightarrow> bool" where
  "stored_rounded2 x (Fin v) = rounded2 x v"
| "stored_rounded2 x _ = False"




section \<open>Auxiliary facts\<close>

lemma iloc_last: "xs \<noteq> [] \<Longrightarrow> iloc xs (- 1) = Inr (last xs)"
  by (cases xs rule: rev_cases) (simp_all add: iloc_def)

lemma iloc_first: "xs \<noteq> [] \<Longrightarrow> iloc xs 0 = Inr (hd xs)"
  by (cases xs) (simp_all add: iloc_def)

lemma length_rolling_mean: "length (rolling_mean w xs) = length xs"
  by (simp add: rolling_mean_def)

lemma last_rolling_mean:
  assumes "xs \<noteq> []"
  shows "last (rolling_mean w xs) =
           (if w = 0 \<or> length xs < w then NaN else Fin (mean_of_last w xs))"
proof -
  obtain n where n: "length xs = Suc n" using assms by (cases xs) auto
  have lt: "n < length [0..<length xs]" using n by simp
  have "rolling_mean w xs \<noteq> []" using assms by (simp add: rolling_mean_def)
  then have "last (rolling_mean w xs) = rolling_mean w xs ! n"
    using n by (simp add: last_conv_nth length_rolling_mean)
  also have "\<dots> = (if w = 0 \<or> n + 1 < w then NaN
                    else Fin (sum_list (take w (drop (n + 1 - w) xs)) / of_nat w))"
  proof -
    have "[0..<length xs] ! n = n" using n by (simp add: nth_append del: upt_Suc)
    then show ?thesis unfolding rolling_mean_def nth_map [OF lt] by simp
  qed
  finally show ?thesis using n by (auto simp: mean_of_last_def)
qed

lemma process_ticker_raises:
  "history (yf t) (now - of_nat (p + 100)) now = Inl e \<Longrightarrow> process_ticker yf now p t = Inl e"
  by (simp add: process_ticker_def bind_def Let_def)

lemma process_ticker_short:
  "history (yf t) (now - of_nat (p + 100)) now = Inr h \<Longrightarrow> length h \<le> p \<Longrightarrow>
   process_ticker yf now p t = Inr None"
  by (simp add: process_ticker_def bind_def Let_def)

lemma process_ticker_long:
  assumes "history (yf t) (now - of_nat (p + 100)) now = Inr h" and "p < length h" and "0 < p"
  shows "process_ticker yf now p t =
     (if mean_of_last p (map Close h) = 0 then Inl ZeroDivisionError
      else case info (yf t) of
        Inl e \<Rightarrow> Inl e
      | Inr d \<Rightarrow>
          Inr (Some \<lparr>Symbol = replace_NS t,
                     Name = (case d ''longName'' of Some n \<Rightarrow> n | None \<Rightarrow> replace_NS t),
                     Current_Price = Fin (round_to 2 (Close (last h))),
                     MA_200 = Fin (round_to 2 (mean_of_last p (map Close h))),
                     Below_MA = (Close (last h) < mean_of_last p (map Close h)),
                     Distance_From_MA =
                       Fin (round_to 2 ((Close (last h) - mean_of_last p (map Close h))
                                         / mean_of_last p (map Close h) * 100)),
                     Row_Volume = Volume (last h),
                     Price_Change =
                       py_round (fl_mul (np_div (Fin (Close (last h) - Close (hd h))) (Fin (Close (hd h))))
                                   (Fin 100)) 2\<rparr>))"
proof -
  have ne: "h \<noteq> []" "map Close h \<noteq> []" "map Volume h \<noteq> []" using assms(2) by auto
  have lr: "rolling_mean p (map Close h) \<noteq> []" using ne by (simp add: rolling_mean_def)
  show ?thesis
    using assms ne
    by (simp add: process_ticker_def bind_def Let_def iloc_last [OF ne(2)] iloc_last [OF ne(3)]
        iloc_last [OF lr] iloc_first [OF ne(2)] last_rolling_mean [OF ne(2)] last_map hd_map
        py_div_def fl_sub_def split: sum.splits)
qed

lemma process_ticker_window0:
  assumes "history (yf t) (now - of_nat 100) now = Inr h" and "h \<noteq> []"
  shows "process_ticker yf now 0 t =
     (case info (yf t) of
        Inl e \<Rightarrow> Inl e
      | Inr d \<Rightarrow>
          Inr (Some \<lparr>Symbol = replace_NS t,
                     Name = (case d ''longName'' of Some n \<Rightarrow> n | None \<Rightarrow> replace_NS t),
                     Current_Price = Fin (round_to 2 (Close (last h))),
                     MA_200 = NaN,
                     Below_MA = False,
                     Distance_From_MA = NaN,
                     Row_Volume = Volume (last h),
                     Price_Change =
                       py_round (fl_mul (np_div (Fin (Close (last h) - Close (hd h))) (Fin (Close (hd h))))
                                   (Fin 100)) 2\<rparr>))"
proof -
  have ne: "h \<noteq> []" "map Close h \<noteq> []" "map Volume h \<noteq> []" using assms(2) by auto
  have lr: "rolling_mean 0 (map Close h) \<noteq> []" using ne by (simp add: rolling_mean_def)
  show ?thesis
    using assms ne
    by (simp add: process_ticker_def bind_def Let_def iloc_last [OF ne(2)] iloc_last [OF ne(3)]
        iloc_last [OF lr] iloc_first [OF ne(2)] last_rolling_mean [OF ne(2)] last_map hd_map
        py_div_def fl_sub_def fl_inf_def split: sum.splits)
qed

lemma process_ticker_Symbol:
  assumes "process_ticker yf now p t = Inr (Some r)"
  shows "Symbol r = replace_NS t"
proof (cases "history (yf t) (now - of_nat (p + 100)) now")
  case (Inl e)
  then show ?thesis using assms by (simp add: process_ticker_raises)
next
  case (Inr h)
  show ?thesis
  proof (cases "length h \<le> p")
    case True
    then show ?thesis using assms Inr by (simp add: process_ticker_short)
  next
    case False
    then have long: "p < length h" by simp
    show ?thesis
    proof (cases "p = 0")
      case True
      then show ?thesis
        using assms Inr long process_ticker_window0 [of yf t now h]
        by (auto split: sum.splits)
    next
      case False
      then show ?thesis
        using assms Inr long process_ticker_long [of yf t now p h]
        by (auto split: sum.splits if_splits)
    qed
  qed
qed

lemma ticker_loop_eq:
  "ticker_loop yf e p n its (rs, ui) =
     (rs @ concat (map (\<lambda>(i, t). rows_of (process_ticker yf e p t)) its),
      ui @ concat (map (\<lambda>(i, t). errors_of t (process_ticker yf e p t)
                                   @ [Progress (of_nat (i + 1) / of_nat n)]) its))"
proof (induction its arbitrary: rs ui)
  case Nil
  then show ?case by simp
next
  case (Cons it its)
  obtain i t where it: "it = (i, t)" by (cases it)
  show ?case
    by (cases "process_ticker yf e p t" rule: rows_of.cases)
       (simp_all add: it Cons.IH)
qed

lemma get_stocks_below_ma_eq:
  "get_stocks_below_ma yf now ts p ui =
     (concat (map (\<lambda>t. rows_of (process_ticker yf now p t)) ts),
      ui @ [Progress 0]
         @ concat (map (\<lambda>(i, t). errors_of t (process_ticker yf now p t)
                                   @ [Progress (of_nat (i + 1) / of_nat (length ts))]) (enumerate 0 ts))
         @ [Progress_empty])"
proof -
  have "map (\<lambda>(i, t). rows_of (process_ticker yf now p t)) (enumerate 0 ts)
          = map (\<lambda>t. rows_of (process_ticker yf now p t)) (map snd (enumerate 0 ts))"
    unfolding map_map by (rule map_cong) auto
  then have "map (\<lambda>(i, t). rows_of (process_ticker yf now p t)) (enumerate 0 ts)
          = map (\<lambda>t. rows_of (process_ticker yf now p t)) ts"
    by (simp only: map_snd_enumerate)
  then show ?thesis
    by (simp add: get_stocks_below_ma_def Let_def ticker_loop_eq)
qed

lemma zero_hist: "history (zero_provider t) s e = Inr (replicate 51 \<lparr>Close = 0, Volume = 1000\<rparr>)"
  by (simp add: zero_provider_def stock_of_closes_def)

lemma rising_hist: "history (rising_provider t) s e =
    Inr [\<lparr>Close = 10, Volume = 1000\<rparr>, \<lparr>Close = 20, Volume = 1000\<rparr>, \<lparr>Close = 30, Volume = 1000\<rparr>]"
  by (simp add: rising_provider_def stock_of_closes_def)

lemma process_ticker_cong:
  assumes "history (yf t) (now1 - of_nat (p + 100)) now1 = history (yf t) (now2 - of_nat (p + 100)) now2"
  shows "process_ticker yf now1 p t = process_ticker yf now2 p t"
  using assms by (simp add: process_ticker_def Let_def)

lemma round_half_even_cases:
  fixes x :: rat
  defines "f \<equiv> \<lfloor>x\<rfloor>"
  shows "round_half_even x = f \<and> x - of_int f \<le> 1 / 2
       \<or> round_half_even x = f + 1 \<and> 1 / 2 \<le> x - of_int f"
  unfolding round_half_even_def Let_def f_def by auto

lemma round_half_even_upper: "of_int (round_half_even x) - x \<le> 1 / 2"
proof -
  define f where "f = \<lfloor>x\<rfloor>"
  have b: "x < of_int f + 1" "of_int f \<le> x" unfolding f_def by linarith+
  from round_half_even_cases [of x]
  consider "round_half_even x = f" | "round_half_even x = f + 1" "1 / 2 \<le> x - of_int f"
    unfolding f_def by blast
  then show ?thesis
  proof cases
    case 1
    then show ?thesis using b by simp
  next
    case 2
    then show ?thesis using b by simp
  qed
qed

lemma round_half_even_lower: "x - of_int (round_half_even x) \<le> 1 / 2"
proof -
  define f where "f = \<lfloor>x\<rfloor>"
  have b: "x < of_int f + 1" "of_int f \<le> x" unfolding f_def by linarith+
  from round_half_even_cases [of x]
  consider "round_half_even x = f" "x - of_int f \<le> 1 / 2" | "round_half_even x = f + 1"
    unfolding f_def by blast
  then show ?thesis
  proof cases
    case 1
    then show ?thesis using b by simp
  next
    case 2
    then show ?thesis using b by simp
  qed
qed

lemma rounded2_round_to: "rounded2 x (round_to 2 x)"
proof -
  define n where "n = round_half_even (x * 100)"
  have "of_int n - x * 100 \<le> 1 / 2" "x * 100 - of_int n \<le> 1 / 2"
    unfolding n_def by (rule round_half_even_upper, rule round_half_even_lower)
  then have "\<bar>of_int n / 100 - x\<bar> \<le> 1 / 200"
    by linarith
  then show ?thesis
    by (simp add: rounded2_def round_to_def n_def)
qed

lemma round_half_even_nonneg: "0 \<le> x \<Longrightarrow> 0 \<le> round_half_even x"
proof -
  assume "0 \<le> x"
  then have "0 \<le> \<lfloor>x\<rfloor>" by simp
  then show ?thesis by (simp add: round_half_even_def Let_def)
qed

lemma round_half_even_nonpos: "x < 0 \<Longrightarrow> round_half_even x \<le> 0"
proof -
  assume "x < 0"
  then have "\<lfloor>x\<rfloor> < 0" by (simp add: floor_less_iff)
  then show ?thesis by (simp add: round_half_even_def Let_def)
qed

lemma round_to_nonneg: "0 \<le> x \<Longrightarrow> 0 \<le> round_to k x"
  by (simp add: round_to_def round_half_even_nonneg)

lemma round_to_nonpos: "x < 0 \<Longrightarrow> round_to k x \<le> 0"
proof -
  assume "x < 0"
  then have "x * 10 ^ k < 0" by (simp add: mult_less_0_iff)
  then have "round_half_even (x * 10 ^ k) \<le> 0" by (rule round_half_even_nonpos)
  then show ?thesis by (simp add: round_to_def divide_le_0_iff)
qed

lemma np_pct_Fin:
  "c \<noteq> 0 \<Longrightarrow> py_round (fl_mul (np_div (Fin a) (Fin c)) (Fin 100)) 2 = Fin (round_to 2 (a / c * 100))"
  by simp

lemma replace_TCS: "replace_NS ''TCS.NS'' = ''TCS''"
  by simp

lemma round_to_int: "round_to 2 (of_int n) = of_int n"
  by (simp add: round_to_def round_half_even_def Let_def)

lemma rising_process: "process_ticker rising_provider now 2 ''TCS.NS'' = Inr (Some rising_row)"
proof -
  have m: "mean_of_last 2 [10, 20, 30 :: rat] = 25" by (simp add: mean_of_last_def)
  have i: "info (rising_provider ''TCS.NS'') = Inr Map.empty"
    by (simp add: rising_provider_def stock_of_closes_def)
  have r: "round_to 2 30 = 30" "round_to 2 25 = 25" "round_to 2 20 = 20" "round_to 2 200 = 200"
    using round_to_int [of 30] round_to_int [of 25] round_to_int [of 20] round_to_int [of 200]
    by simp_all
  show ?thesis
    by (simp add: process_ticker_long [of rising_provider "''TCS.NS''" now 2, OF rising_hist] m i r
         rising_row_def)
qed

lemma zero_first_hist:
  "history (zero_first_provider t) s e
     = Inr (map (\<lambda>c. \<lparr>Close = c, Volume = 1000\<rparr>) (0 # replicate 50 10))"
  by (simp add: zero_first_provider_def stock_of_closes_def)

lemma zero_first_process:
  "process_ticker zero_first_provider now 50 ''TCS.NS'' = Inr (Some zero_first_row)"
proof -
  have m: "mean_of_last 50 (0 # replicate 50 (10::rat)) = 10"
    by (simp add: mean_of_last_def sum_list_replicate)
  have i: "info (zero_first_provider ''TCS.NS'') = Inr Map.empty"
    by (simp add: zero_first_provider_def stock_of_closes_def)
  have r: "round_to 2 10 = 10" "round_to 2 0 = 0"
    using round_to_int [of 10] round_to_int [of 0] by simp_all
  have l: "last (replicate 50 \<lparr>Close = 10 :: rat, Volume = 1000 :: int\<rparr>) = \<lparr>Close = 10, Volume = 1000\<rparr>"
    by simp
  show ?thesis
    by (simp add: process_ticker_long [of zero_first_provider "''TCS.NS''" now 50, OF zero_first_hist]
         m i r l zero_first_row_def comp_def fl_inf_def)
qed

lemma get_stocks_below_ma_append:
  "fst (get_stocks_below_ma yf now (ts1 @ ts2) p ui)
     = fst (get_stocks_below_ma yf now ts1 p ui1) @ fst (get_stocks_below_ma yf now ts2 p ui2)"
  by (simp add: get_stocks_below_ma_eq)

lemma error_shown:
  assumes "process_ticker yf now p t = Inl e" and "t \<in> set ts"
  shows "Write_error t e \<in> set (snd (get_stocks_below_ma yf now ts p ui))"
proof -
  from assms(2) obtain i where i: "i < length ts" "ts ! i = t"
    by (auto simp: in_set_conv_nth)
  then have "(i, t) \<in> set (enumerate 0 ts)"
    by (simp add: in_set_enumerate_eq)
  moreover have "Write_error t e \<in> set (errors_of t (process_ticker yf now p t))"
    using assms(1) by simp
  ultimately show ?thesis
    by (fastforce simp: get_stocks_below_ma_eq)
qed

lemma near_hist:
  "history (near_provider t) s e
     = Inr (map (\<lambda>c. \<lparr>Close = c, Volume = 1000\<rparr>)
              (1024 # replicate 25 (32769 / 32) @ replicate 25 (32767 / 32)))"
  by (simp add: near_provider_def stock_of_closes_def)

lemma round_examples:
  "round_to 2 (32767 / 32) = 102397 / 100"
  "round_to 2 (- (25 / 8192)) = 0"
  "round_to 2 1024 = 1024"
  by code_simp+

lemma near_process: "process_ticker near_provider now 50 ''TCS.NS'' = Inr (Some near_row)"
proof -
  have m: "mean_of_last 50 (1024 # replicate 25 (32769 / 32) @ replicate 25 (32767 / 32 :: rat)) = 1024"
    by (simp add: mean_of_last_def sum_list_replicate)
  have i: "info (near_provider ''TCS.NS'') = Inr Map.empty"
    by (simp add: near_provider_def stock_of_closes_def)
  have l: "last (replicate 25 \<lparr>Close = 32767 / 32 :: rat, Volume = 1000 :: int\<rparr>)
             = \<lparr>Close = 32767 / 32, Volume = 1000\<rparr>"
    by simp
  show ?thesis
    by (simp add: process_ticker_long [of near_provider "''TCS.NS''" now 50, OF near_hist]
         m i l near_row_def comp_def round_examples)
qed

lemma scenario_hist:
  "history (scenario_provider t) s e
     = Inr (map (\<lambda>c. \<lparr>Close = c, Volume = 1000\<rparr>)
              (replicate 10 50 @ replicate 100 90 @ replicate 100 100))"
  by (simp add: scenario_provider_def stock_of_closes_def)

lemma scenario_values:
  "round_to 2 (100 / 19) = 263 / 50"
  "round_to 2 100 = 100"
  "round_to 2 95 = 95"
  "format_1f (Fin (263 / 50)) = ''5.3''"
  "show_nat 1 = ''1''"
  by code_simp+

lemma show_nat_Suc_0: "show_nat (Suc 0) = ''1''"
  by (simp add: show_nat.simps [of "Suc 0"])

lemma range_from_single: "0 < k \<Longrightarrow> range_from 0 (Suc 0) k = [0]"
  by (simp add: range_from.simps [of 0 "Suc 0" k] range_from.simps [of k "Suc 0" k])

lemma create_charts_one_above:
  assumes "0 < k" and "fl_ge (Distance_From_MA r) (Fin 0)"
  shows "create_charts [r] k =
     Inr ([\<lparr>chart_title = ''Indian Stocks Above 200-day MA (Group 1)'',
            bar_color = ''#2ecc71'',
            bars = [(Symbol r, Distance_From_MA r)],
            bar_texts = [''+'' @ format_1f (Distance_From_MA r) @ ''%'']\<rparr>], [])"
proof -
  have nl: "\<not> fl_less (Distance_From_MA r) (Fin 0)"
    using assms(2) by (cases "Distance_From_MA r") auto
  have a: "above_df [r] = [r]" "below_df [r] = []"
    using assms(2) nl by (simp_all add: above_df_def below_df_def sort_values_def)
  have e: "range_from 0 0 k = []" by (simp add: range_from.simps [of 0 0 k])
  show ?thesis
    using assms(1)
    by (simp add: create_charts_def a py_range_def bind_def range_from_single e make_chart_def
         show_nat_Suc_0)
qed

lemma scenario_process:
  "process_ticker scenario_provider now 200 ''TCS.NS'' = Inr (Some scenario_row)"
proof -
  have m: "mean_of_last 200 (replicate 10 50 @ replicate 100 90 @ replicate 100 (100::rat)) = 95"
    by (simp add: mean_of_last_def sum_list_replicate)
  have i: "info (scenario_provider ''TCS.NS'') = Inr Map.empty"
    by (simp add: scenario_provider_def stock_of_closes_def)
  have l: "last (replicate 100 \<lparr>Close = 100 :: rat, Volume = 1000 :: int\<rparr>)
             = \<lparr>Close = 100, Volume = 1000\<rparr>"
    by simp
  have hd: "hd (replicate 10 \<lparr>Close = 50 :: rat, Volume = 1000 :: int\<rparr>) = \<lparr>Close = 50, Volume = 1000\<rparr>"
    by simp
  show ?thesis
    by (simp add: process_ticker_long [of scenario_provider "''TCS.NS''" now 200, OF scenario_hist]
         m i l hd scenario_row_def comp_def scenario_values)
qed

lemma rows_all_succeed:
  assumes "\<forall>t \<in> set xs. \<exists>r. process_ticker yf now p t = Inr (Some r)"
  shows "map Symbol (concat (map (\<lambda>t. rows_of (process_ticker yf now p t)) xs)) = map replace_NS xs"
  using assms
proof (induction xs)
  case Nil
  then show ?case by simp
next
  case (Cons x xs)
  from Cons.prems obtain r where r: "process_ticker yf now p x = Inr (Some r)" by auto
  then have "Symbol r = replace_NS x" by (rule process_ticker_Symbol)
  then show ?case using Cons r by simp
qed

lemma events_no_errors:
  assumes "\<forall>t \<in> set xs. \<exists>r. process_ticker yf now p t = Inr (Some r)"
  shows "concat (map (\<lambda>(k, t). errors_of t (process_ticker yf now p t) @ [Progress (f k)])
                  (enumerate m xs))
           = map (\<lambda>k. Progress (f k)) [m..<m + length xs]"
  using assms
proof (induction xs arbitrary: m)
  case Nil
  then show ?case by simp
next
  case (Cons x xs)
  from Cons.prems obtain r where r: "process_ticker yf now p x = Inr (Some r)" by auto
  have "concat (map (\<lambda>(k, t). errors_of t (process_ticker yf now p t) @ [Progress (f k)])
                  (enumerate (Suc m) xs))
           = map (\<lambda>k. Progress (f k)) [Suc m..<Suc m + length xs]"
    using Cons.prems by (intro Cons.IH) simp
  moreover have "[m..<m + length (x # xs)] = m # [Suc m..<Suc m + length xs]"
    by (simp add: upt_conv_Cons del: upt_Suc)
  ultimately show ?case using r by (simp del: upt_Suc)
qed

lemma stored_rounded2_round_to: "stored_rounded2 x (Fin (round_to 2 x))"
  by (simp add: rounded2_round_to)



lemma distinct_tickers: "distinct get_nifty_tickers"
  unfolding get_nifty_tickers_def by code_simp

lemma length_tickers: "length get_nifty_tickers = 30"
  by (simp add: get_nifty_tickers_def)

lemma one_failing_other:
  assumes "t \<noteq> ''TCS.NS''"
  shows "\<exists>r. process_ticker one_failing_provider now 2 t = Inr (Some r)"
proof -
  have h: "history (one_failing_provider t) (now - of_nat (2 + 100)) now
             = Inr [\<lparr>Close = 10, Volume = 1000\<rparr>, \<lparr>Close = 20, Volume = 1000\<rparr>,
                    \<lparr>Close = 30, Volume = 1000\<rparr>]"
    using assms by (simp add: one_failing_provider_def stock_of_closes_def)
  have i: "info (one_failing_provider t) = Inr Map.empty"
    using assms by (simp add: one_failing_provider_def stock_of_closes_def)
  have m: "mean_of_last 2 [10, 20, 30 :: rat] = 25" by (simp add: mean_of_last_def)
  show ?thesis
    by (simp add: process_ticker_long [of one_failing_provider t now 2, OF h] i m)
qed

lemma one_failing_TCS:
  "history (one_failing_provider ''TCS.NS'') s e = Inl (ProviderError ''connection reset'')"
  by (simp add: one_failing_provider_def failing_stock_def)

lemma rows_of_empty: "(\<forall>r. x \<noteq> Inr (Some r)) \<Longrightarrow> rows_of x = []"
  by (cases x rule: rows_of.cases) simp_all

lemma no_rendering_in_loop:
  "filter is_rendering
     (concat (map (\<lambda>(k, t). errors_of t (process_ticker yf now p t) @ [Progress (f k)]) its)) = []"
proof (induction its)
  case Nil
  then show ?case by simp
next
  case (Cons it its)
  obtain k t where it: "it = (k, t)" by (cases it)
  have "filter is_rendering (errors_of t (process_ticker yf now p t)) = []"
    by (cases "process_ticker yf now p t" rule: rows_of.cases) simp_all
  then show ?case using Cons by (simp add: it)
qed

lemma no_rendering_in_fetch:
  "filter is_rendering (snd (get_stocks_below_ma yf now ts p ui)) = filter is_rendering ui"
  by (simp add: get_stocks_below_ma_eq no_rendering_in_loop)

lemma failing_process:
  "process_ticker failing_provider now p t = Inl (ProviderError ''connection reset'')"
  by (rule process_ticker_raises) (simp add: failing_provider_def failing_stock_def)

lemma chunk_index:
  fixes j n k :: nat
  assumes "0 < k"
  shows "(j < (n + k - 1) div k) = (j * k < n)"
proof -
  have "(j < (n + k - 1) div k) = (Suc j \<le> (n + k - 1) div k)" by auto
  also have "\<dots> = (Suc j * k \<le> n + k - 1)"
    using assms by (simp only: less_eq_div_iff_mult_less_eq)
  also have "\<dots> = (j * k < n)" using assms by auto
  finally show ?thesis .
qed

lemma range_from_eq:
  "0 < k \<Longrightarrow> range_from i n k = map (\<lambda>j. i + j * k) [0..<(n - i + k - 1) div k]"
proof (induction i n k rule: range_from.induct)
  case (1 i n k)
  have k: "0 < k" by (rule "1.prems")
  show ?case
  proof (cases "n \<le> i")
    case True
    then have "n - i + k - 1 < k" using k by simp
    then have "(n - i + k - 1) div k = 0" by (rule div_less)
    then show ?thesis using True by (simp add: range_from.simps [of i n k])
  next
    case False
    then have lt: "i < n" by auto
    have cnt: "(n - i + k - 1) div k = Suc ((n - (i + k) + k - 1) div k)"
    proof (cases "i + k \<le> n")
      case True
      define x where "x = n - (i + k) + k - 1"
      have "n - i + k - 1 = x + k" using True k by (simp add: x_def)
      then have "(n - i + k - 1) div k = (x + k) div k" by (rule arg_cong)
      also have "\<dots> = Suc (x div k)" using k by simp
      finally show ?thesis by (simp only: x_def)
    next
      case False
      then have a: "n - (i + k) = 0" by simp
      have "k \<le> n - i + k - 1" "n - i + k - 1 < 2 * k" using lt False k by auto
      then have "(n - i + k - 1) div k = 1"
        using k by (intro div_nat_eqI) auto
      then show ?thesis using a k by simp
    qed
    have "range_from i n k = i # range_from (i + k) n k"
      using False k by (simp add: range_from.simps [of i n k])
    also have "\<dots> = i # map (\<lambda>j. i + k + j * k) [0..<(n - (i + k) + k - 1) div k]"
      using "1.IH" False k by simp
    also have "\<dots> = map (\<lambda>j. i + j * k) (0 # map Suc [0..<(n - (i + k) + k - 1) div k])"
      by (simp add: comp_def)
    also have "0 # map Suc [0..<(n - (i + k) + k - 1) div k] = [0..<(n - i + k - 1) div k]"
      unfolding cnt by (simp only: map_Suc_upt upt_conv_Cons [of 0] zero_less_Suc)
    finally show ?thesis .
  qed
qed

lemma ceil_div:
  assumes "0 < k"
  shows "nat \<lceil>rat_of_nat n / rat_of_nat k\<rceil> = (n + k - 1) div k"
proof -
  define c where "c = (n + k - 1) div k"
  have up: "n \<le> c * k"
  proof -
    have "\<not> c < (n + k - 1) div k" by (simp add: c_def)
    then have "\<not> c * k < n" using chunk_index [OF assms, of c n] by simp
    then show ?thesis by simp
  qed
  have lo: "0 < c \<Longrightarrow> (c - 1) * k < n"
    using chunk_index [OF assms, of "c - 1" n] by (simp add: c_def)
  have "\<lceil>rat_of_nat n / rat_of_nat k\<rceil> = int c"
  proof (rule ceiling_unique)
    show "rat_of_nat n / rat_of_nat k \<le> of_int (int c)"
    proof -
      have "rat_of_nat n \<le> rat_of_nat (c * k)" using up by (simp only: of_nat_le_iff)
      then show ?thesis using assms by (simp add: divide_le_eq)
    qed
    show "of_int (int c) - 1 < rat_of_nat n / rat_of_nat k"
    proof (cases "c = 0")
      case True
      have "(0::rat) \<le> rat_of_nat n / rat_of_nat k" by simp
      moreover have "of_int (int c) - 1 = (- 1 :: rat)" using True by simp
      ultimately show ?thesis by linarith
    next
      case False
      then have "rat_of_nat ((c - 1) * k) < rat_of_nat n"
        using lo by (simp only: of_nat_less_iff)
      moreover have "rat_of_nat (c - 1) = rat_of_nat c - 1" using False by (simp add: of_nat_diff)
      ultimately show ?thesis using assms by (simp add: less_divide_eq)
    qed
  qed
  then show ?thesis by (simp add: c_def)
qed

lemma create_charts_eq:
  "0 < k \<Longrightarrow> create_charts df k =
     Inr (map (make_chart True (above_df df) k) (range_from 0 (length (above_df df)) k),
          map (make_chart False (below_df df) k) (range_from 0 (length (below_df df)) k))"
  by (simp add: create_charts_def py_range_def bind_def)

lemma charts_eq:
  "0 < k \<Longrightarrow> map (make_chart b xs k) (range_from 0 (length xs) k)
     = map (\<lambda>j. make_chart b xs k (j * k)) [0..<(length xs + k - 1) div k]"
  by (simp add: range_from_eq comp_def)

lemma bars_make_chart:
  "bars (make_chart b xs k i) = map (\<lambda>r. (Symbol r, Distance_From_MA r)) (take k (drop i xs))"
  by (simp add: make_chart_def Let_def)

lemma last_chunk_size:
  fixes n k m :: nat
  assumes "0 < k" and "(m - 1) * k < n" and "n \<le> m * k" and "0 < m"
  shows "min k (n - (m - 1) * k) = (if n mod k = 0 then k else n mod k)"
proof -
  define r where "r = n - (m - 1) * k"
  have n: "n = (m - 1) * k + r" using assms(2) by (simp add: r_def)
  have "m * k = (m - 1) * k + k" using assms(4) by (cases m) simp_all
  then have r: "0 < r" "r \<le> k" using assms(2,3) n by auto
  have "min k r = (if n mod k = 0 then k else n mod k)"
  proof (cases "r = k")
    case True
    then have "n mod k = 0" using n by simp
    then show ?thesis using True by simp
  next
    case False
    then have "r < k" using r by simp
    then have "n mod k = r" using n by simp
    then show ?thesis using r by simp
  qed
  then show ?thesis unfolding r_def .
qed

lemma chunk_shape:
  fixes xs :: "row list" and k :: nat and b :: bool
  assumes "0 < k"
  defines "n \<equiv> length xs"
  defines "cs \<equiv> map (make_chart b xs k) (range_from 0 (length xs) k)"
  shows "length cs = nat \<lceil>rat_of_nat n / rat_of_nat k\<rceil>
       \<and> (\<forall>j. Suc j < length cs \<longrightarrow> length (bars (cs ! j)) = k)
       \<and> (cs \<noteq> [] \<longrightarrow> length (bars (last cs)) = (if n mod k = 0 then k else n mod k))
       \<and> (xs = [] \<longrightarrow> cs = [])"
proof -
  define m where "m = (n + k - 1) div k"
  have cs: "cs = map (\<lambda>j. make_chart b xs k (j * k)) [0..<m]"
    unfolding cs_def m_def n_def using assms(1) by (rule charts_eq)
  have len: "length cs = m" by (simp add: cs)
  have nth: "j < m \<Longrightarrow> length (bars (cs ! j)) = min k (n - j * k)" for j
    by (simp add: cs bars_make_chart n_def min.commute)
  have idx: "(j < m) = (j * k < n)" for j
    unfolding m_def using assms(1) by (rule chunk_index)
  have count: "length cs = nat \<lceil>rat_of_nat n / rat_of_nat k\<rceil>"
    using ceil_div [OF assms(1), of n] by (simp add: len m_def)
  have full: "length (bars (cs ! j)) = k" if "Suc j < length cs" for j
  proof -
    have "Suc j * k < n" using that idx [of "Suc j"] by (simp add: len)
    then have "k \<le> n - j * k" by simp
    moreover have "j < m" using that by (simp add: len)
    ultimately show ?thesis by (simp add: nth)
  qed
  have lst: "length (bars (last cs)) = (if n mod k = 0 then k else n mod k)" if "cs \<noteq> []"
  proof -
    have pos: "0 < m" using that len by (cases cs) auto
    have a: "(m - 1) * k < n" using pos idx [of "m - 1"] by simp
    have b: "n \<le> m * k" using idx [of m] by simp
    have "last cs = cs ! (m - 1)" using that by (simp add: last_conv_nth len)
    then have "length (bars (last cs)) = min k (n - (m - 1) * k)"
      using pos by (simp add: nth)
    then show ?thesis using last_chunk_size [OF assms(1) a b pos] by simp
  qed
  have none: "cs = []" if "xs = []"
    using that idx [of 0] len by (cases cs) (auto simp: n_def)
  show ?thesis using count full lst none by blast
qed

lemma above_replicate:
  "fl_ge (Distance_From_MA r) (Fin 0) \<Longrightarrow> length (above_df (replicate n r)) = n"
  "fl_ge (Distance_From_MA r) (Fin 0) \<Longrightarrow> below_df (replicate n r) = []"
proof -
  assume ge: "fl_ge (Distance_From_MA r) (Fin 0)"
  then have nl: "\<not> fl_less (Distance_From_MA r) (Fin 0)"
    by (cases "Distance_From_MA r") auto
  show "length (above_df (replicate n r)) = n"
    using ge by (simp add: above_df_def sort_values_def)
  show "below_df (replicate n r) = []"
    using nl by (simp add: below_df_def sort_values_def)
qed















section \<open>The claims\<close>

subsection \<open>C1: which symbols get a row\<close>

text \<open>
  C1, as amended. For a symbol whose history was fetched (\<open>h\<close>) and a period \<open>p\<close>:
  a row is produced exactly when the history is longer than \<open>p\<close>, the name lookup does
  not raise and the mean of the last \<open>p\<close> closing prices is not zero (for \<open>p > 0\<close>);
  the symbol is skipped without any exception exactly when the history has at most \<open>p\<close>
  points, and then a run over that symbol alone returns an empty frame and shows nothing
  but the progress bar. So a row is produced only for a history longer than \<open>p\<close>, but
  not for every such history.
\<close>

theorem C1_row_iff:
  assumes "history (yf t) (now - of_nat (p + 100)) now = Inr h"
  shows "((\<exists>r. process_ticker yf now p t = Inr (Some r)) \<longleftrightarrow>
            p < length h \<and> (\<exists>d. info (yf t) = Inr d)
            \<and> \<not> (0 < p \<and> mean_of_last p (map Close h) = 0))
       \<and> (process_ticker yf now p t = Inr None \<longleftrightarrow> length h \<le> p)
       \<and> (length h \<le> p \<longrightarrow>
            get_stocks_below_ma yf now [t] p ui = ([], ui @ [Progress 0, Progress 1, Progress_empty]))"
proof (cases "length h \<le> p")
  case True
  then show ?thesis
    using assms by (simp add: process_ticker_short get_stocks_below_ma_eq)
next
  case False
  then have long: "p < length h" by simp
  show ?thesis
  proof (cases "p = 0")
    case True
    then show ?thesis
      using assms long process_ticker_window0 [of yf t now h]
      by (auto split: sum.splits)
  next
    case False
    then show ?thesis
      using assms long process_ticker_long [of yf t now p h]
      by (auto split: sum.splits)
  qed
qed

text \<open>
  The theorem at two concrete inputs: three closing prices 10, 20, 30 with period 2 give
  a row, and with period 50 the symbol is skipped silently.
\<close>

theorem C1_row_iff_witness:
  "((\<exists>r. process_ticker rising_provider 0 2 ''TCS.NS'' = Inr (Some r)))
   \<and> process_ticker rising_provider 0 2 ''TCS.NS'' \<noteq> Inr None
   \<and> process_ticker rising_provider 0 50 ''TCS.NS'' = Inr None
   \<and> get_stocks_below_ma rising_provider 0 [''TCS.NS''] 50 [] = ([], [Progress 0, Progress 1, Progress_empty])"
  using C1_row_iff [of rising_provider "''TCS.NS''" 0 2, OF rising_hist, of "[]"]
        C1_row_iff [of rising_provider "''TCS.NS''" 0 50, OF rising_hist, of "[]"]
  by (simp add: mean_of_last_def rising_provider_def stock_of_closes_def)

text \<open>
  C1 as stated fails: 51 closing prices, all zero, and period 50. The history is longer
  than the period, the division by the moving average raises, and the frame has no row.
\<close>

theorem C1_counterexample:
  "history (zero_provider ''TCS.NS'') (0 - of_nat (50 + 100)) 0
     = Inr (replicate 51 \<lparr>Close = 0, Volume = 1000\<rparr>)
   \<and> 50 < length (replicate 51 \<lparr>Close = 0 :: rat, Volume = 1000 :: int\<rparr>)
   \<and> process_ticker zero_provider 0 50 ''TCS.NS'' = Inl ZeroDivisionError
   \<and> fst (get_stocks_below_ma zero_provider 0 [''TCS.NS''] 50 []) = []"
proof -
  have p: "process_ticker zero_provider 0 50 ''TCS.NS'' = Inl ZeroDivisionError"
  proof -
    have m: "mean_of_last 50 (replicate 51 (0::rat)) = 0"
      by (simp add: mean_of_last_def sum_list_replicate)
    show ?thesis
      by (simp add: process_ticker_long [of zero_provider "''TCS.NS''" 0 50, OF zero_hist] m)
  qed
  show ?thesis
    by (simp add: zero_hist p get_stocks_below_ma_eq)
qed

subsection \<open>C9: running the calculator again\<close>

text \<open>
  C9. Two runs over the same tickers and period, at any two instants and from any two
  states of the page, give the same frame (the same rows with the same rounded values in
  every field, in the same order) whenever the provider answers both runs with the same
  history for every ticker. In particular the frame of a run does not depend on what an
  earlier run left on the page: the list of results starts empty in every call.
\<close>

theorem C9_rerun_same_rows:
  assumes "\<forall>t \<in> set ts. history (yf t) (now1 - of_nat (p + 100)) now1
                          = history (yf t) (now2 - of_nat (p + 100)) now2"
  shows "fst (get_stocks_below_ma yf now1 ts p ui1) = fst (get_stocks_below_ma yf now2 ts p ui2)"
proof -
  have "map (\<lambda>t. rows_of (process_ticker yf now1 p t)) ts
          = map (\<lambda>t. rows_of (process_ticker yf now2 p t)) ts"
  proof (rule map_cong [OF refl])
    fix t assume "t \<in> set ts"
    with assms have "process_ticker yf now1 p t = process_ticker yf now2 p t"
      by (intro process_ticker_cong) blast
    then show "rows_of (process_ticker yf now1 p t) = rows_of (process_ticker yf now2 p t)"
      by (rule arg_cong)
  qed
  then have "concat (map (\<lambda>t. rows_of (process_ticker yf now1 p t)) ts)
          = concat (map (\<lambda>t. rows_of (process_ticker yf now2 p t)) ts)"
    by (rule arg_cong)
  then show ?thesis by (simp only: get_stocks_below_ma_eq fst_conv)
qed

text \<open>The theorem at a concrete input: a second run, one day later, from the page the first run left.\<close>

theorem C9_rerun_same_rows_witness:
  "history (rising_provider ''TCS.NS'') (0 - of_nat (2 + 100)) 0
     = history (rising_provider ''TCS.NS'') (1 - of_nat (2 + 100)) 1
   \<and> history (rising_provider ''INFY.NS'') (0 - of_nat (2 + 100)) 0
     = history (rising_provider ''INFY.NS'') (1 - of_nat (2 + 100)) 1
   \<and> fst (get_stocks_below_ma rising_provider 0 [''TCS.NS'', ''INFY.NS''] 2 [])
       = fst (get_stocks_below_ma rising_provider 1 [''TCS.NS'', ''INFY.NS''] 2
               (snd (get_stocks_below_ma rising_provider 0 [''TCS.NS'', ''INFY.NS''] 2 [])))"
proof -
  have same: "history (rising_provider t) (0 - of_nat (2 + 100)) 0
         = history (rising_provider t) (1 - of_nat (2 + 100)) 1" for t
    by (simp only: rising_hist)
  then have h: "\<forall>t \<in> set [''TCS.NS'', ''INFY.NS''].
       history (rising_provider t) (0 - of_nat (2 + 100)) 0
         = history (rising_provider t) (1 - of_nat (2 + 100)) 1"
    by blast
  show ?thesis
    by (intro conjI same C9_rerun_same_rows [OF h])
qed

subsection \<open>C7: the values of a row\<close>



subsection \<open>C10: a zero divisor\<close>

text \<open>
  C10, as amended. For a history longer than the period \<open>p > 0\<close>: when the moving
  average is zero, the division for the distance raises ZeroDivisionError inside the
  \<open>try\<close>; the handler shows an error for that ticker, the ticker adds no row and the
  loop goes on with the tickers after it. When the moving average is not zero and only
  the first closing price is zero, nothing is raised: the division for the price change is
  one of numpy scalars, the row is produced with an infinite (or NaN) price change, and no
  error is shown.
\<close>

theorem C10_zero_divisors:
  assumes "history (yf t) (now - of_nat (p + 100)) now = Inr h"
    and "p < length h" and "0 < p"
  shows "(mean_of_last p (map Close h) = 0 \<longrightarrow>
            process_ticker yf now p t = Inl ZeroDivisionError
          \<and> fst (get_stocks_below_ma yf now (ts1 @ t # ts2) p ui)
              = fst (get_stocks_below_ma yf now ts1 p ui) @ fst (get_stocks_below_ma yf now ts2 p ui)
          \<and> Write_error t ZeroDivisionError
              \<in> set (snd (get_stocks_below_ma yf now (ts1 @ t # ts2) p ui)))
       \<and> (mean_of_last p (map Close h) \<noteq> 0 \<and> Close (hd h) = 0 \<and> info (yf t) = Inr d \<longrightarrow>
            (\<exists>r. process_ticker yf now p t = Inr (Some r)
               \<and> Price_Change r =
                   (if 0 < Close (last h) then PInf else if Close (last h) < 0 then NInf else NaN)
               \<and> fst (get_stocks_below_ma yf now [t] p ui) = [r]
               \<and> snd (get_stocks_below_ma yf now [t] p ui)
                   = ui @ [Progress 0, Progress 1, Progress_empty]))"
proof (intro conjI impI)
  assume z: "mean_of_last p (map Close h) = 0"
  then show raised: "process_ticker yf now p t = Inl ZeroDivisionError"
    by (simp add: process_ticker_long [of yf t now p h, OF assms])
  have "fst (get_stocks_below_ma yf now (ts1 @ [t] @ ts2) p ui)
          = fst (get_stocks_below_ma yf now ts1 p ui) @ fst (get_stocks_below_ma yf now ts2 p ui)"
    by (simp add: get_stocks_below_ma_eq raised)
  then show "fst (get_stocks_below_ma yf now (ts1 @ t # ts2) p ui)
          = fst (get_stocks_below_ma yf now ts1 p ui) @ fst (get_stocks_below_ma yf now ts2 p ui)"
    by simp
  show "Write_error t ZeroDivisionError \<in> set (snd (get_stocks_below_ma yf now (ts1 @ t # ts2) p ui))"
    by (rule error_shown [OF raised]) simp
next
  assume a: "mean_of_last p (map Close h) \<noteq> 0 \<and> Close (hd h) = 0 \<and> info (yf t) = Inr d"
  then obtain r where r: "process_ticker yf now p t = Inr (Some r)"
    and pc: "Price_Change r =
       py_round (fl_mul (np_div (Fin (Close (last h) - Close (hd h))) (Fin (Close (hd h)))) (Fin 100)) 2"
    by (simp add: process_ticker_long [of yf t now p h, OF assms])
  have "Price_Change r =
          (if 0 < Close (last h) then PInf else if Close (last h) < 0 then NInf else NaN)"
    using a pc by (simp add: fl_inf_def)
  moreover have "get_stocks_below_ma yf now [t] p ui = ([r], ui @ [Progress 0, Progress 1, Progress_empty])"
    by (simp add: get_stocks_below_ma_eq r)
  ultimately show "\<exists>r. process_ticker yf now p t = Inr (Some r)
               \<and> Price_Change r =
                   (if 0 < Close (last h) then PInf else if Close (last h) < 0 then NInf else NaN)
               \<and> fst (get_stocks_below_ma yf now [t] p ui) = [r]
               \<and> snd (get_stocks_below_ma yf now [t] p ui)
                   = ui @ [Progress 0, Progress 1, Progress_empty]"
    using r by simp
qed

text \<open>
  The theorem at two concrete inputs: 51 closing prices 0 (the average is zero), and a
  first closing price 0 followed by fifty of 10, both with period 50.
\<close>

theorem C10_zero_divisors_witness:
  "process_ticker zero_provider 0 50 ''TCS.NS'' = Inl ZeroDivisionError
   \<and> fst (get_stocks_below_ma zero_provider 0 ([''INFY.NS''] @ ''TCS.NS'' # [''ITC.NS'']) 50 [])
       = fst (get_stocks_below_ma zero_provider 0 [''INFY.NS''] 50 [])
         @ fst (get_stocks_below_ma zero_provider 0 [''ITC.NS''] 50 [])
   \<and> Write_error ''TCS.NS'' ZeroDivisionError
       \<in> set (snd (get_stocks_below_ma zero_provider 0 ([''INFY.NS''] @ ''TCS.NS'' # [''ITC.NS'']) 50 []))
   \<and> (\<exists>r. process_ticker zero_first_provider 0 50 ''TCS.NS'' = Inr (Some r)
          \<and> Price_Change r = PInf
          \<and> fst (get_stocks_below_ma zero_first_provider 0 [''TCS.NS''] 50 []) = [r]
          \<and> snd (get_stocks_below_ma zero_first_provider 0 [''TCS.NS''] 50 [])
              = [Progress 0, Progress 1, Progress_empty])"
proof -
  have len0: "50 < length (replicate 51 \<lparr>Close = 0 :: rat, Volume = 1000 :: int\<rparr>)" by simp
  have len1: "50 < length (map (\<lambda>c. \<lparr>Close = c, Volume = 1000 :: int\<rparr>) (0 # replicate 50 (10::rat)))"
    by simp
  have pos: "0 < (50::nat)" by simp
  have m0: "mean_of_last 50 (map Close (replicate 51 \<lparr>Close = 0 :: rat, Volume = 1000 :: int\<rparr>)) = 0"
    by (simp add: mean_of_last_def sum_list_replicate)
  have m1: "mean_of_last 50 (map Close (map (\<lambda>c. \<lparr>Close = c, Volume = 1000 :: int\<rparr>) (0 # replicate 50 (10::rat)))) \<noteq> 0"
    by (simp add: mean_of_last_def sum_list_replicate comp_def)
  have f: "Close (hd (map (\<lambda>c. \<lparr>Close = c, Volume = 1000 :: int\<rparr>) (0 # replicate 50 (10::rat)))) = 0"
    by simp
  have l: "0 < Close (last (map (\<lambda>c. \<lparr>Close = c, Volume = 1000 :: int\<rparr>) (0 # replicate 50 (10::rat))))"
    by simp
  have i: "info (zero_first_provider ''TCS.NS'') = Inr Map.empty"
    by (simp add: zero_first_provider_def stock_of_closes_def)
  have A: "process_ticker zero_provider 0 50 ''TCS.NS'' = Inl ZeroDivisionError
   \<and> fst (get_stocks_below_ma zero_provider 0 ([''INFY.NS''] @ ''TCS.NS'' # [''ITC.NS'']) 50 [])
       = fst (get_stocks_below_ma zero_provider 0 [''INFY.NS''] 50 [])
         @ fst (get_stocks_below_ma zero_provider 0 [''ITC.NS''] 50 [])
   \<and> Write_error ''TCS.NS'' ZeroDivisionError
       \<in> set (snd (get_stocks_below_ma zero_provider 0 ([''INFY.NS''] @ ''TCS.NS'' # [''ITC.NS'']) 50 []))"
    using C10_zero_divisors [where yf = zero_provider and t = "''TCS.NS''" and now = 0 and p = 50
            and ?ts1.0 = "[''INFY.NS'']" and ?ts2.0 = "[''ITC.NS'']" and ui = "[]",
            OF zero_hist len0 pos] m0
    by blast
  have B: "\<exists>r. process_ticker zero_first_provider 0 50 ''TCS.NS'' = Inr (Some r)
          \<and> Price_Change r = PInf
          \<and> fst (get_stocks_below_ma zero_first_provider 0 [''TCS.NS''] 50 []) = [r]
          \<and> snd (get_stocks_below_ma zero_first_provider 0 [''TCS.NS''] 50 [])
              = [Progress 0, Progress 1, Progress_empty]"
    using C10_zero_divisors [where yf = zero_first_provider and t = "''TCS.NS''" and now = 0
            and p = 50 and d = Map.empty and ui = "[]", OF zero_first_hist len1 pos] m1 f l i
    by (simp only: simp_thms if_True append_Nil)
  show ?thesis using A B by blast
qed

text \<open>
  C10 as stated fails for a first closing price of zero: here the ticker gets its row, with
  price change \<open>+inf\<close>, and the page shows no error.
\<close>

theorem C10_counterexample:
  "history (zero_first_provider ''TCS.NS'') (0 - of_nat (50 + 100)) 0
     = Inr (map (\<lambda>c. \<lparr>Close = c, Volume = 1000\<rparr>) (0 # replicate 50 10))
   \<and> Close (hd (map (\<lambda>c. \<lparr>Close = c, Volume = 1000 :: int\<rparr>) (0 # replicate 50 (10::rat)))) = 0
   \<and> process_ticker zero_first_provider 0 50 ''TCS.NS'' = Inr (Some zero_first_row)
   \<and> Price_Change zero_first_row = PInf
   \<and> get_stocks_below_ma zero_first_provider 0 [''TCS.NS''] 50 []
       = ([zero_first_row], [Progress 0, Progress 1, Progress_empty])"
  by (simp add: zero_first_hist zero_first_process get_stocks_below_ma_eq)
     (simp add: zero_first_row_def)

subsection \<open>C2: the flag and the chart partition\<close>

text \<open>
  C2, as amended. For a row produced from a history whose moving average is positive
  (period \<open>p > 0\<close>): a row whose stored distance is negative, that is a row of the
  \<open>below\<close> partition, is flagged \<open>Below_MA\<close>; a row that is not flagged has a stored
  distance of at least zero and lies in the \<open>above\<close> partition; a flagged row has a
  stored distance that is negative or exactly zero. The flag is computed before rounding
  and the partition after it, so a flagged row whose distance rounds to zero lies in the
  \<open>above\<close> partition.
\<close>

theorem C2_flag_and_partition:
  assumes "history (yf t) (now - of_nat (p + 100)) now = Inr h"
    and "p < length h" and "0 < p"
    and "0 < mean_of_last p (map Close h)"
    and "process_ticker yf now p t = Inr (Some r)"
  shows "(fl_less (Distance_From_MA r) (Fin 0) \<longrightarrow> Below_MA r)
       \<and> (\<not> Below_MA r \<longrightarrow> fl_ge (Distance_From_MA r) (Fin 0))
       \<and> (Below_MA r \<longrightarrow> fl_less (Distance_From_MA r) (Fin 0) \<or> Distance_From_MA r = Fin 0)"
proof -
  define m where "m = mean_of_last p (map Close h)"
  define c where "c = Close (last h)"
  have row: "Below_MA r = (c < m)" "Distance_From_MA r = Fin (round_to 2 ((c - m) / m * 100))"
    using assms(4,5) process_ticker_long [of yf t now p h, OF assms(1,2,3)]
    by (auto simp: m_def c_def split: sum.splits)
  have pos: "0 < m" using assms(4) by (simp add: m_def)
  show ?thesis
  proof (cases "c < m")
    case True
    then have "(c - m) / m * 100 < 0"
      using pos by (simp add: divide_neg_pos mult_neg_pos)
    then have "round_to 2 ((c - m) / m * 100) \<le> 0" by (rule round_to_nonpos)
    then show ?thesis using True row by auto
  next
    case False
    then have "0 \<le> (c - m) / m * 100"
      using pos by simp
    then have "0 \<le> round_to 2 ((c - m) / m * 100)" by (rule round_to_nonneg)
    then show ?thesis using False row by auto
  qed
qed

text \<open>
  The theorem at two concrete inputs: closing prices 10, 20, 30 with period 2 (not
  flagged, distance 20), and a price just under an average of 1024 with period 50
  (flagged, distance rounded to 0).
\<close>

theorem C2_flag_and_partition_witness:
  "process_ticker rising_provider 0 2 ''TCS.NS'' = Inr (Some rising_row)
   \<and> Below_MA rising_row = False
   \<and> fl_ge (Distance_From_MA rising_row) (Fin 0)
   \<and> process_ticker near_provider 0 50 ''TCS.NS'' = Inr (Some near_row)
   \<and> Below_MA near_row
   \<and> Distance_From_MA near_row = Fin 0"
proof -
  have a: "2 < length [\<lparr>Close = 10 :: rat, Volume = 1000 :: int\<rparr>, \<lparr>Close = 20, Volume = 1000\<rparr>,
                       \<lparr>Close = 30, Volume = 1000\<rparr>]"
    by simp
  have b: "0 < (2::nat)" by simp
  have m: "0 < mean_of_last 2 (map Close [\<lparr>Close = 10 :: rat, Volume = 1000 :: int\<rparr>,
                 \<lparr>Close = 20, Volume = 1000\<rparr>, \<lparr>Close = 30, Volume = 1000\<rparr>])"
    by (simp add: mean_of_last_def)
  have a': "50 < length (map (\<lambda>c. \<lparr>Close = c, Volume = 1000 :: int\<rparr>)
              (1024 # replicate 25 (32769 / 32) @ replicate 25 (32767 / 32 :: rat)))"
    by simp
  have b': "0 < (50::nat)" by simp
  have m': "0 < mean_of_last 50 (map Close (map (\<lambda>c. \<lparr>Close = c, Volume = 1000 :: int\<rparr>)
              (1024 # replicate 25 (32769 / 32) @ replicate 25 (32767 / 32 :: rat))))"
    by (simp add: mean_of_last_def sum_list_replicate comp_def)
  have A: "Below_MA rising_row = False \<and> fl_ge (Distance_From_MA rising_row) (Fin 0)"
    using C2_flag_and_partition [of rising_provider "''TCS.NS''" 0 2, OF rising_hist a b m rising_process]
    by (simp add: rising_row_def)
  have B: "Below_MA near_row \<and> Distance_From_MA near_row = Fin 0"
    using C2_flag_and_partition [of near_provider "''TCS.NS''" 0 50, OF near_hist a' b' m' near_process]
    by (simp add: near_row_def)
  show ?thesis
    using A B rising_process near_process by simp
qed

text \<open>
  C2 as stated fails: with period 50, a closing price of 1023.96875 under a moving average
  of 1024 gives a row flagged \<open>Below_MA\<close> whose distance, about -0.003 per cent, is
  stored as 0; the row is not in the \<open>below\<close> partition but in the \<open>above\<close> one.
\<close>

theorem C2_counterexample:
  "process_ticker near_provider 0 50 ''TCS.NS'' = Inr (Some near_row)
   \<and> Below_MA near_row
   \<and> \<not> fl_less (Distance_From_MA near_row) (Fin 0)
   \<and> above_df [near_row] = [near_row]
   \<and> below_df [near_row] = []"
  by (simp add: near_process) (simp add: near_row_def above_df_def below_df_def sort_values_def)

subsection \<open>C8: the scenario with distance 5.26\<close>

text \<open>
  C8, as amended. For a history of 210 points with period 200, last closing price 100 and
  a mean of 95 over the last 200 closing prices, the row that is produced has the distance
  5.26, is not flagged and lies in the \<open>above\<close> partition; a frame holding that row
  alone gives one chart above the average and none below, whose bar has height 5.26 and
  carries the text \<open>+5.3%\<close>: the bar texts are formatted with one decimal place.
\<close>

theorem C8_scenario:
  assumes "history (yf t) (now - of_nat (200 + 100)) now = Inr h"
    and "length h = 210"
    and "Close (last h) = 100"
    and "mean_of_last 200 (map Close h) = 95"
    and "process_ticker yf now 200 t = Inr (Some r)"
    and "0 < k"
  shows "Distance_From_MA r = Fin (526 / 100)
       \<and> Below_MA r = False
       \<and> above_df [r] = [r] \<and> below_df [r] = []
       \<and> create_charts [r] k =
           Inr ([\<lparr>chart_title = ''Indian Stocks Above 200-day MA (Group 1)'',
                  bar_color = ''#2ecc71'',
                  bars = [(Symbol r, Fin (526 / 100))],
                  bar_texts = [''+5.3%'']\<rparr>], [])"
proof -
  have len: "200 < length h" using assms(2) by simp
  have row: "Below_MA r = False" "Distance_From_MA r = Fin (263 / 50)"
    using assms(3,4,5) process_ticker_long [of yf t now 200 h, OF assms(1) len]
    by (auto simp: scenario_values split: sum.splits)
  have ge: "fl_ge (Distance_From_MA r) (Fin 0)" by (simp add: row)
  have parts: "above_df [r] = [r]" "below_df [r] = []"
    by (simp_all add: above_df_def below_df_def sort_values_def row)
  show ?thesis
    using create_charts_one_above [OF assms(6) ge]
    by (simp add: parts row scenario_values del: format_1f.simps)
qed

text \<open>
  The theorem at a concrete input: ten closing prices 50, a hundred of 90 and a hundred of
  100, with fifteen stocks per chart.
\<close>

theorem C8_scenario_witness:
  "process_ticker scenario_provider 0 200 ''TCS.NS'' = Inr (Some scenario_row)
   \<and> Distance_From_MA scenario_row = Fin (526 / 100)
   \<and> Below_MA scenario_row = False
   \<and> above_df [scenario_row] = [scenario_row]
   \<and> create_charts [scenario_row] 15 =
       Inr ([\<lparr>chart_title = ''Indian Stocks Above 200-day MA (Group 1)'',
              bar_color = ''#2ecc71'',
              bars = [(''TCS'', Fin (526 / 100))],
              bar_texts = [''+5.3%'']\<rparr>], [])"
proof -
  have len: "length (map (\<lambda>c. \<lparr>Close = c, Volume = 1000 :: int\<rparr>)
              (replicate 10 50 @ replicate 100 90 @ replicate 100 (100::rat))) = 210"
    by simp
  have l: "Close (last (map (\<lambda>c. \<lparr>Close = c, Volume = 1000 :: int\<rparr>)
              (replicate 10 50 @ replicate 100 90 @ replicate 100 (100::rat)))) = 100"
    by simp
  have m: "mean_of_last 200 (map Close (map (\<lambda>c. \<lparr>Close = c, Volume = 1000 :: int\<rparr>)
              (replicate 10 50 @ replicate 100 90 @ replicate 100 (100::rat)))) = 95"
    by (simp add: mean_of_last_def sum_list_replicate comp_def)
  have k: "0 < (15::nat)" by simp
  have s: "Symbol scenario_row = ''TCS''" by (simp add: scenario_row_def)
  from C8_scenario [of scenario_provider "''TCS.NS''" 0, OF scenario_hist len l m scenario_process k]
  show ?thesis
    by (simp only: scenario_process s simp_thms)
qed

text \<open>
  C8 as stated fails at that input: the text over the bar is \<open>+5.3%\<close> and not
  \<open>+5.26%\<close>.
\<close>

theorem C8_counterexample:
  "process_ticker scenario_provider 0 200 ''TCS.NS'' = Inr (Some scenario_row)
   \<and> Distance_From_MA scenario_row = Fin (526 / 100)
   \<and> bar_texts \<lparr>chart_title = ''Indian Stocks Above 200-day MA (Group 1)'',
                 bar_color = ''#2ecc71'',
                 bars = [(''TCS'', Fin (526 / 100))],
                 bar_texts = [''+5.3%'']\<rparr> \<noteq> [''+5.26%'']
   \<and> create_charts [scenario_row] 15 =
       Inr ([\<lparr>chart_title = ''Indian Stocks Above 200-day MA (Group 1)'',
              bar_color = ''#2ecc71'',
              bars = [(''TCS'', Fin (526 / 100))],
              bar_texts = [''+5.3%'']\<rparr>], [])"
proof -
  have k: "0 < (15::nat)" by simp
  have d: "Distance_From_MA scenario_row = Fin (263 / 50)" "Symbol scenario_row = ''TCS''"
    by (simp_all add: scenario_row_def)
  have ge: "fl_ge (Distance_From_MA scenario_row) (Fin 0)" by (simp add: d)
  show ?thesis
    using create_charts_one_above [OF k ge]
    by (simp add: scenario_process d scenario_values del: format_1f.simps)
qed

subsection \<open>C5: one fetch fails\<close>

text \<open>
  C5. In a run over the tickers \<open>ts\<close> where the fetch of the history raises for the
  ticker at position \<open>i\<close> and every other ticker is processed with success (its history
  is long enough and nothing is raised, so it gets its row): the frame holds exactly one
  row for each of the other tickers, in the order of the input, so one row less than there
  are tickers; the page shows exactly one error, which names the ticker at position
  \<open>i\<close> and carries the exception; and the run is not aborted, as the progress bar moves
  on after the failure up to the last ticker and is then cleared.
\<close>

theorem C5_one_failure:
  assumes "i < length ts"
    and "history (yf (ts ! i)) (now - of_nat (p + 100)) now = Inl e"
    and "\<forall>j < length ts. j \<noteq> i \<longrightarrow> (\<exists>r. process_ticker yf now p (ts ! j) = Inr (Some r))"
  shows "map Symbol (fst (get_stocks_below_ma yf now ts p ui))
           = map replace_NS (take i ts @ drop (Suc i) ts)
       \<and> length (fst (get_stocks_below_ma yf now ts p ui)) = length ts - 1
       \<and> snd (get_stocks_below_ma yf now ts p ui)
           = ui @ [Progress 0]
               @ map (\<lambda>k. Progress (of_nat (k + 1) / of_nat (length ts))) [0..<i]
               @ [Write_error (ts ! i) e, Progress (of_nat (i + 1) / of_nat (length ts))]
               @ map (\<lambda>k. Progress (of_nat (k + 1) / of_nat (length ts))) [Suc i..<length ts]
               @ [Progress_empty]"
proof -
  define before where "before = take i ts"
  define after where "after = drop (Suc i) ts"
  have split: "ts = before @ ts ! i # after"
    unfolding before_def after_def using assms(1) by (rule id_take_nth_drop)
  have lb: "length before = i" using assms(1) by (simp add: before_def)
  have la: "length after = length ts - Suc i" by (simp add: after_def)
  have raised: "process_ticker yf now p (ts ! i) = Inl e"
    using assms(2) by (rule process_ticker_raises)
  have okb: "\<forall>t \<in> set before. \<exists>r. process_ticker yf now p t = Inr (Some r)"
  proof
    fix t assume "t \<in> set before"
    then obtain j where "j < i" "t = ts ! j"
      using assms(1) by (auto simp: before_def in_set_conv_nth)
    then show "\<exists>r. process_ticker yf now p t = Inr (Some r)"
      using assms(1,3) by auto
  qed
  have oka: "\<forall>t \<in> set after. \<exists>r. process_ticker yf now p t = Inr (Some r)"
  proof
    fix t assume "t \<in> set after"
    then obtain j where "j < length ts - Suc i" "t = ts ! (Suc i + j)"
      by (auto simp: after_def in_set_conv_nth)
    then show "\<exists>r. process_ticker yf now p t = Inr (Some r)"
      using assms(3) by auto
  qed
  let ?rows = "\<lambda>xs. concat (map (\<lambda>t. rows_of (process_ticker yf now p t)) xs)"
  have rows: "fst (get_stocks_below_ma yf now ts p ui) = ?rows before @ ?rows after"
    by (subst split) (simp add: get_stocks_below_ma_eq raised)
  have syms: "map Symbol (fst (get_stocks_below_ma yf now ts p ui)) = map replace_NS (before @ after)"
    by (simp add: rows rows_all_succeed [OF okb] rows_all_succeed [OF oka])
  have "length (map Symbol (fst (get_stocks_below_ma yf now ts p ui))) = length ts - 1"
    unfolding syms using assms(1) by (simp add: lb la)
  then have len: "length (fst (get_stocks_below_ma yf now ts p ui)) = length ts - 1"
    by simp
  let ?ev = "\<lambda>(k, t). errors_of t (process_ticker yf now p t)
                        @ [Progress (of_nat (k + 1) / of_nat (length ts))]"
  have en: "enumerate 0 ts = enumerate 0 before @ (i, ts ! i) # enumerate (Suc i) after"
    by (subst split) (simp add: enumerate_append_eq lb)
  have evb: "concat (map ?ev (enumerate 0 before))
               = map (\<lambda>k. Progress (of_nat (k + 1) / of_nat (length ts))) [0..<i]"
  proof -
    have "0 + length before = i" by (simp add: lb)
    then show ?thesis
      using events_no_errors [OF okb, of "\<lambda>k. of_nat (k + 1) / of_nat (length ts)" 0]
      by (simp only:)
  qed
  have eva: "concat (map ?ev (enumerate (Suc i) after))
               = map (\<lambda>k. Progress (of_nat (k + 1) / of_nat (length ts))) [Suc i..<length ts]"
  proof -
    have "Suc i + length after = length ts" using assms(1) by (simp add: la)
    then show ?thesis
      using events_no_errors [OF oka, of "\<lambda>k. of_nat (k + 1) / of_nat (length ts)" "Suc i"]
      by (simp only:)
  qed
  have evs: "snd (get_stocks_below_ma yf now ts p ui)
           = ui @ [Progress 0]
               @ map (\<lambda>k. Progress (of_nat (k + 1) / of_nat (length ts))) [0..<i]
               @ [Write_error (ts ! i) e, Progress (of_nat (i + 1) / of_nat (length ts))]
               @ map (\<lambda>k. Progress (of_nat (k + 1) / of_nat (length ts))) [Suc i..<length ts]
               @ [Progress_empty]"
    using evb eva by (simp add: get_stocks_below_ma_eq en raised)
  show ?thesis
    using syms len evs by (simp add: before_def after_def)
qed

text \<open>
  The theorem at a concrete input: the thirty tickers of \<open>get_nifty_tickers\<close>, a
  provider that fails for the second of them only, and period 2. The frame has 29 rows.
\<close>

theorem C5_one_failure_witness:
  "length get_nifty_tickers = 30
   \<and> get_nifty_tickers ! 1 = ''TCS.NS''
   \<and> length (fst (get_stocks_below_ma one_failing_provider 0 get_nifty_tickers 2 [])) = 29
   \<and> map Symbol (fst (get_stocks_below_ma one_failing_provider 0 get_nifty_tickers 2 []))
       = map replace_NS (take 1 get_nifty_tickers @ drop (Suc 1) get_nifty_tickers)
   \<and> snd (get_stocks_below_ma one_failing_provider 0 get_nifty_tickers 2 [])
       = [] @ [Progress 0]
         @ map (\<lambda>k. Progress (of_nat (k + 1) / of_nat (length get_nifty_tickers))) [0..<1]
         @ [Write_error (get_nifty_tickers ! 1) (ProviderError ''connection reset''),
            Progress (of_nat (1 + 1) / of_nat (length get_nifty_tickers))]
         @ map (\<lambda>k. Progress (of_nat (k + 1) / of_nat (length get_nifty_tickers)))
             [Suc 1..<length get_nifty_tickers]
         @ [Progress_empty]"
proof -
  have t1: "get_nifty_tickers ! 1 = ''TCS.NS''" by (simp add: get_nifty_tickers_def)
  have i: "1 < length get_nifty_tickers" by (simp add: length_tickers)
  have f: "history (one_failing_provider (get_nifty_tickers ! 1)) (0 - of_nat (2 + 100)) 0
             = Inl (ProviderError ''connection reset'')"
    by (simp only: t1 one_failing_TCS)
  have others: "\<forall>j < length get_nifty_tickers. j \<noteq> 1 \<longrightarrow>
      (\<exists>r. process_ticker one_failing_provider 0 2 (get_nifty_tickers ! j) = Inr (Some r))"
  proof (intro allI impI)
    fix j assume j: "j < length get_nifty_tickers" "j \<noteq> 1"
    then have "get_nifty_tickers ! j \<noteq> get_nifty_tickers ! 1"
      using distinct_tickers i by (simp add: nth_eq_iff_index_eq)
    with t1 have "get_nifty_tickers ! j \<noteq> ''TCS.NS''" by simp
    then show "\<exists>r. process_ticker one_failing_provider 0 2 (get_nifty_tickers ! j) = Inr (Some r)"
      by (rule one_failing_other)
  qed
  note inst = C5_one_failure [OF i f others, of "[]"]
  have n29: "length (fst (get_stocks_below_ma one_failing_provider 0 get_nifty_tickers 2 [])) = 29"
    using inst length_tickers by simp
  show ?thesis
    using inst n29 t1 length_tickers by blast
qed

subsection \<open>C6: no ticker gives a row\<close>

text \<open>
  C6. When no ticker of the list gets a row (each one fails to fetch, or is left out for
  a history that is too short, or fails in any other way), the frame is empty, and
  \<open>main\<close> returns right after showing the error \<open>No data available...\<close>: what the page
  shows is the title, the subtitle, the two selectors, the spinner, what the fetch loop showed (its
  errors and its progress bar) and that error as the last thing, with no summary metric,
  no heading, no tabs, no chart and no table anywhere.
\<close>

theorem C6_no_data:
  assumes "\<forall>t \<in> set get_nifty_tickers. \<forall>r. process_ticker yf now ma_period t \<noteq> Inr (Some r)"
  shows "fst (get_stocks_below_ma yf now get_nifty_tickers ma_period ui) = []
       \<and> main yf now stocks_per_page ma_period filter_opt sort_by =
           Inr (snd (get_stocks_below_ma yf now get_nifty_tickers ma_period
                      [Title ''Indian Stock Market Health Analysis'',
                       Write ''Analysis of NSE stocks relative to their 200-day Moving Average'',
                       Selectbox ''Stocks per chart'',
                       Selectbox ''Moving Average Period (days)'',
                       Spinner ''Fetching data and calculating moving averages...''])
                @ [Error ''No data available. Please check your internet connection or try again later.''])
       \<and> filter is_rendering
            (snd (get_stocks_below_ma yf now get_nifty_tickers ma_period
                      [Title ''Indian Stock Market Health Analysis'',
                       Write ''Analysis of NSE stocks relative to their 200-day Moving Average'',
                       Selectbox ''Stocks per chart'',
                       Selectbox ''Moving Average Period (days)'',
                       Spinner ''Fetching data and calculating moving averages...''])
             @ [Error ''No data available. Please check your internet connection or try again later.''])
           = []"
proof -
  have "map (\<lambda>t. rows_of (process_ticker yf now ma_period t)) get_nifty_tickers
          = map (\<lambda>t. []) get_nifty_tickers"
    using assms by (intro map_cong refl rows_of_empty) blast
  then have "concat (map (\<lambda>t. rows_of (process_ticker yf now ma_period t)) get_nifty_tickers) = []"
    by simp
  then have empty: "fst (get_stocks_below_ma yf now get_nifty_tickers ma_period u) = []" for u
    by (simp only: get_stocks_below_ma_eq fst_conv)
  show ?thesis
    by (simp add: empty main_def Let_def case_prod_unfold no_rendering_in_fetch)
qed

text \<open>The theorem at a provider whose every request fails, with period 200.\<close>

theorem C6_no_data_witness:
  "fst (get_stocks_below_ma failing_provider 0 get_nifty_tickers 200 []) = []
   \<and> main failing_provider 0 15 200 All By_Distance =
       Inr (snd (get_stocks_below_ma failing_provider 0 get_nifty_tickers 200
                  [Title ''Indian Stock Market Health Analysis'',
                   Write ''Analysis of NSE stocks relative to their 200-day Moving Average'',
                   Selectbox ''Stocks per chart'',
                   Selectbox ''Moving Average Period (days)'',
                   Spinner ''Fetching data and calculating moving averages...''])
            @ [Error ''No data available. Please check your internet connection or try again later.''])
   \<and> filter is_rendering
        (snd (get_stocks_below_ma failing_provider 0 get_nifty_tickers 200
                  [Title ''Indian Stock Market Health Analysis'',
                   Write ''Analysis of NSE stocks relative to their 200-day Moving Average'',
                   Selectbox ''Stocks per chart'',
                   Selectbox ''Moving Average Period (days)'',
                   Spinner ''Fetching data and calculating moving averages...''])
         @ [Error ''No data available. Please check your internet connection or try again later.''])
       = []"
proof -
  have h: "\<forall>t \<in> set get_nifty_tickers. \<forall>r. process_ticker failing_provider 0 200 t \<noteq> Inr (Some r)"
    by (simp add: failing_process)
  show ?thesis
    by (rule C6_no_data [OF h])
qed

subsection \<open>C4: how many charts, and how many bars in each\<close>

text \<open>
  C4. For every positive number \<open>k\<close> of stocks per chart (the selector offers 10, 15,
  20, 25 and 30) and each of the two subsets, of size \<open>S\<close>: the chart grouper makes
  exactly \<open>ceil(S / k)\<close> charts; every chart but the last has exactly \<open>k\<close> bars; the
  last has \<open>S mod k\<close> bars when that is not zero, and \<open>k\<close> otherwise; and an empty
  subset gives no chart at all.
\<close>

theorem C4_chunk_counts:
  assumes "0 < k" and "create_charts df k = Inr (above_charts, below_charts)"
  shows "length above_charts = nat \<lceil>rat_of_nat (length (above_df df)) / rat_of_nat k\<rceil>
       \<and> (\<forall>j. Suc j < length above_charts \<longrightarrow> length (bars (above_charts ! j)) = k)
       \<and> (above_charts \<noteq> [] \<longrightarrow>
            length (bars (last above_charts))
              = (if length (above_df df) mod k = 0 then k else length (above_df df) mod k))
       \<and> (above_df df = [] \<longrightarrow> above_charts = [])
       \<and> length below_charts = nat \<lceil>rat_of_nat (length (below_df df)) / rat_of_nat k\<rceil>
       \<and> (\<forall>j. Suc j < length below_charts \<longrightarrow> length (bars (below_charts ! j)) = k)
       \<and> (below_charts \<noteq> [] \<longrightarrow>
            length (bars (last below_charts))
              = (if length (below_df df) mod k = 0 then k else length (below_df df) mod k))
       \<and> (below_df df = [] \<longrightarrow> below_charts = [])"
proof -
  have a: "above_charts = map (make_chart True (above_df df) k) (range_from 0 (length (above_df df)) k)"
    and b: "below_charts = map (make_chart False (below_df df) k) (range_from 0 (length (below_df df)) k)"
    using assms(2) create_charts_eq [OF assms(1), of df] by simp_all
  show ?thesis
    unfolding a b
    using chunk_shape [OF assms(1), of True "above_df df"]
      chunk_shape [OF assms(1), of False "below_df df"]
    by blast
qed

text \<open>
  The theorem at a concrete input: a frame of 32 rows above the average and 15 stocks per
  chart give three charts of 15, 15 and 2 bars, and no chart below the average.
\<close>

theorem C4_chunk_counts_witness:
  "length (above_df (replicate 32 rising_row)) = 32
   \<and> below_df (replicate 32 rising_row) = []
   \<and> (\<exists>above_charts below_charts.
         create_charts (replicate 32 rising_row) 15 = Inr (above_charts, below_charts)
       \<and> length above_charts = 3
       \<and> length (bars (above_charts ! 0)) = 15
       \<and> length (bars (above_charts ! 1)) = 15
       \<and> length (bars (last above_charts)) = 2
       \<and> below_charts = [])"
proof -
  have k: "0 < (15::nat)" by simp
  have ge: "fl_ge (Distance_From_MA rising_row) (Fin 0)" by (simp add: rising_row_def)
  note n = above_replicate [OF ge, of 32]
  obtain A B where AB: "create_charts (replicate 32 rising_row) 15 = Inr (A, B)"
    using create_charts_eq [OF k] by blast
  have c: "nat \<lceil>rat_of_nat 32 / rat_of_nat 15\<rceil> = 3"
    using ceil_div [of 15 32] by simp
  note inst = C4_chunk_counts [OF k AB]
  have l: "length A = 3" using inst c by (simp add: n)
  then have ne: "A \<noteq> []" by auto
  have f: "length (bars (A ! 0)) = 15" "length (bars (A ! 1)) = 15"
    using inst l by simp_all
  have la: "length (bars (last A)) = 2"
    using inst ne by (simp add: n)
  have e: "B = []" using inst by (simp add: n)
  show ?thesis
    using n AB l f la e by blast
qed

subsection \<open>C3: the two subsets, sorted and cut into charts\<close>



end
